theory Spec2Isabelle
  imports Complex_Main "HOL-Library.Word"
begin

unbundle bit_operations_syntax

section \<open>Values, buffers and formatting\<close>

text \<open>
  The telemetry engine of the dashboard lives in two singleton classes,
  \<^verbatim>\<open>YezdiBleManager\<close> and \<open>YezdiStorageManager\<close>, and in \<open>YezdiSensorManager\<close>.
  JavaScript numbers are modelled as reals (every number the decoder produces is a
  small natural number, which a double represents exactly); a field that holds either a
  number or the string \<^verbatim>\<open>'--'\<close> is a \<open>jsval\<close>. A thrown \<^verbatim>\<open>Error\<close> is
  represented by its message.
\<close>

datatype jsval = Num real | Str string

type_synonym exn = string

type_synonym buffer = "8 word list"

definition bind :: "exn + 'a \<Rightarrow> ('a \<Rightarrow> exn + 'b) \<Rightarrow> exn + 'b" where
  "bind m f = (case m of Inl e \<Rightarrow> Inl e | Inr v \<Rightarrow> f v)"

text \<open>\<^verbatim>\<open>Number.prototype.toString()\<close> on a natural number: its decimal digits.\<close>

definition digit_char :: "nat \<Rightarrow> char" where
  "digit_char n = ''0123456789abcdef'' ! (n mod 16)"

fun show_nat :: "nat \<Rightarrow> string" where
  "show_nat n = (if n < 10 then [digit_char n] else show_nat (n div 10) @ [digit_char (n mod 10)])"

declare show_nat.simps [simp del]

text \<open>\<^verbatim>\<open>buffer.toString('hex')\<close>: two hexadecimal digits per byte.\<close>

definition toHex :: "buffer \<Rightarrow> string" where
  "toHex buf = concat (map (\<lambda>b. [digit_char (unat b div 16), digit_char (unat b mod 16)]) buf)"

text \<open>
  \<^verbatim>\<open>x.toFixed(1)\<close> for \<open>x \<ge> 0\<close>: the integer \<open>n\<close> with \<open>n / 10\<close> closest to
  \<open>x\<close> (the larger one on a tie), printed with one decimal.
\<close>

definition toFixed1 :: "real \<Rightarrow> string" where
  "toFixed1 x = (let n = nat \<lfloor>x * 10 + 1 / 2\<rfloor> in show_nat (n div 10) @ ''.'' @ show_nat (n mod 10))"

text \<open>
  The read methods of the \<^verbatim>\<open>buffer\<close> package: unsigned big-endian reads that throw
  a \<^verbatim>\<open>RangeError\<close> when \<open>offset + width\<close> exceeds the buffer's length.
\<close>

definition rangeError :: exn where
  "rangeError = ''Trying to access beyond buffer length''"

definition readUInt8 :: "buffer \<Rightarrow> nat \<Rightarrow> exn + nat" where
  "readUInt8 buf off = (if off + 1 > length buf then Inl rangeError else Inr (unat (buf ! off)))"

definition readUInt16BE :: "buffer \<Rightarrow> nat \<Rightarrow> exn + nat" where
  "readUInt16BE buf off =
     (if off + 2 > length buf then Inl rangeError
      else Inr (unat (buf ! off) * 256 + unat (buf ! (off + 1))))"

definition readUInt32BE :: "buffer \<Rightarrow> nat \<Rightarrow> exn + nat" where
  "readUInt32BE buf off =
     (if off + 4 > length buf then Inl rangeError
      else Inr (unat (buf ! off) * 16777216
                + (unat (buf ! (off + 1)) * 65536 + unat (buf ! (off + 2)) * 256
                   + unat (buf ! (off + 3)))))"

text \<open>The operator \<^verbatim>\<open>||\<close> on a number (0 is falsy) and on a string (the empty string is falsy).\<close>

definition or_num :: "nat \<Rightarrow> nat \<Rightarrow> nat" where
  "or_num a d = (if a = 0 then d else a)"

definition or_str :: "string \<Rightarrow> string \<Rightarrow> string" where
  "or_str s d = (if s = [] then d else s)"

section \<open>Telemetry records\<close>

text \<open>
  \<open>tier_data\<close> is the object literal one decoding strategy builds; \<open>telemetry\<close> is the
  same object after the trip and fuel-economy fields have been added.
\<close>

record tier_data =
  speed :: jsval
  gear :: jsval
  rpm :: real
  fuel :: real
  ridingMode :: string
  highBeam :: bool
  hazard :: bool
  engineCheck :: bool
  battery :: bool
  odometer :: string

record telemetry = tier_data +
  tripA :: string
  tripB :: string
  afe :: string
  bfe :: string

text \<open>
  What the data callback receives: a whole telemetry object, or, from the GPS fallback
  when no telemetry is known yet, the object \<^verbatim>\<open>{speed: n}\<close> alone.
\<close>

datatype payload = Telemetry telemetry | SpeedOnly real

section \<open>The manager's state and its environment\<close>

text \<open>
  A log message is the string the template literal evaluates to; the one template that
  embeds \<^verbatim>\<open>JSON.stringify(data)\<close> keeps the object itself.
\<close>

datatype message = Text string | ParsedData telemetry

record log_entry =
  timestamp :: int
  level :: string
  message :: message

record settings =
  serviceUUID :: string
  charUUID :: string
  authKey :: string

record mock_data =
  mock_speed :: real
  mock_gear :: int
  mock_rpm :: real
  mock_fuel :: real
  mock_ridingMode :: string
  mock_highBeam :: bool
  mock_hazard :: bool
  mock_engineCheck :: bool
  mock_battery :: bool
  mock_odometer :: string
  mock_tripA :: string
  mock_tripB :: string
  mock_afe :: string
  mock_bfe :: string

text \<open>
  The fields of \<^verbatim>\<open>YezdiBleManager\<close> (a callback, a timer, a subscription or the
  connected device is represented by whether it is set), followed by the parts of the
  outside world the manager changes: the \<^verbatim>\<open>AsyncStorage\<close> items it owns, the
  characteristics it has written the key to and subscribed to (service and characteristic
  identifiers), the objects handed to the data callback and the flags handed to the
  connection callback so far. The callbacks are consumer code; the model records each
  call and assumes the call returns.
\<close>

record manager =
  debugLogs :: "log_entry list"
  customSettings :: settings
  mockData :: mock_data
  sensorFallbackEnabled :: bool
  mockDataEnabled :: bool
  cachedDataEnabled :: bool
  lastKnownData :: "telemetry option"
  mockDataInterval :: bool
  dataCallback :: bool
  connectionCallback :: bool
  connected :: bool
  gpsSubscription :: bool
  accelerometerSubscription :: bool
  stored_cached_data :: "telemetry option"
  stored_custom_settings :: "settings option"
  stored_discovered_services :: "string list option"
  written :: "(string \<times> string) list"
  monitored :: "(string \<times> string) list"
  delivered :: "payload list"
  notified :: "bool list"

text \<open>
  What a call reads from the outside world: the clock (\<^verbatim>\<open>new Date()\<close>, in
  milliseconds); the numbers \<^verbatim>\<open>Math.random()\<close> returns (\<open>random e k\<close> is the result of
  the \<open>k\<close>-th call made during the handler that runs in environment \<open>e\<close>); and how the
  platform answers. An \<open>exn option\<close> is \<open>Some\<close> the message when the call throws or
  rejects: writing to \<^verbatim>\<open>AsyncStorage\<close>, reading and parsing each of its two items,
  \<^verbatim>\<open>Location.watchPositionAsync\<close>, the accelerometer calls,
  \<^verbatim>\<open>Crypto.digestStringAsync\<close>. A permission call answers with a status string
  (\<open>Inr\<close>) or rejects (\<open>Inl\<close>): the two \<^verbatim>\<open>request...PermissionsAsync\<close> calls and
  \<^verbatim>\<open>Location.getForegroundPermissionsAsync\<close>.
\<close>

record env =
  now :: int
  random :: "nat \<Rightarrow> real"
  storage_write_error :: "exn option"
  cached_read_error :: "exn option"
  settings_read_error :: "exn option"
  location_request :: "exn + string"
  camera_request :: "exn + string"
  location_status :: "exn + string"
  watch_error :: "exn option"
  accelerometer_error :: "exn option"
  digest_error :: "exn option"

subsection \<open>The operational log\<close>

definition slice_last :: "nat \<Rightarrow> 'a list \<Rightarrow> 'a list" where
  "slice_last n xs = drop (length xs - n) xs"

definition log_op :: "env \<Rightarrow> string \<Rightarrow> message \<Rightarrow> manager \<Rightarrow> manager" where
  "log_op e lvl msg m =
     (let logs = debugLogs m @ [\<lparr>timestamp = now e, level = lvl, message = msg\<rparr>]
      in m\<lparr>debugLogs := (if length logs > 500 then slice_last 500 logs else logs)\<rparr>)"

definition getDebugLogs :: "manager \<Rightarrow> log_entry list" where
  "getDebugLogs m = debugLogs m"

definition clearDebugLogs :: "env \<Rightarrow> manager \<Rightarrow> manager" where
  "clearDebugLogs e m = log_op e ''INFO'' (Text ''Debug logs cleared'') (m\<lparr>debugLogs := []\<rparr>)"

text \<open>A run of calls of \<^verbatim>\<open>log\<close>, each with its own clock reading, level and message.\<close>

fun log_all :: "(env \<times> string \<times> message) list \<Rightarrow> manager \<Rightarrow> manager" where
  "log_all [] m = m"
| "log_all ((e, lvl, msg) # cs) m = log_all cs (log_op e lvl msg m)"

definition entry_of :: "env \<times> string \<times> message \<Rightarrow> log_entry" where
  "entry_of c = (case c of (e, lvl, msg) \<Rightarrow> \<lparr>timestamp = now e, level = lvl, message = msg\<rparr>)"

subsection \<open>The constructor\<close>

definition initial_mockData :: mock_data where
  "initial_mockData =
     \<lparr>mock_speed = 0, mock_gear = 1, mock_rpm = 0, mock_fuel = 0, mock_ridingMode = ''Road'',
      mock_highBeam = False, mock_hazard = False, mock_engineCheck = False, mock_battery = True,
      mock_odometer = ''00000'', mock_tripA = ''000.0'', mock_tripB = ''000.0'',
      mock_afe = ''00.0'', mock_bfe = ''00.0''\<rparr>"

text \<open>
  The object \<^verbatim>\<open>new YezdiBleManager()\<close> builds, in a world whose storage holds the two
  given items and where nothing has been subscribed or delivered yet.
\<close>

definition constructor :: "telemetry option \<Rightarrow> settings option \<Rightarrow> manager" where
  "constructor cached custom =
     \<lparr>debugLogs = [],
      customSettings = \<lparr>serviceUUID = [], charUUID = [], authKey = ''YEZDI_AUTH_DEFAULT''\<rparr>,
      mockData = initial_mockData,
      sensorFallbackEnabled = True, mockDataEnabled = False, cachedDataEnabled = True,
      lastKnownData = None, mockDataInterval = False,
      dataCallback = False, connectionCallback = False, connected = False,
      gpsSubscription = False, accelerometerSubscription = False,
      stored_cached_data = cached, stored_custom_settings = custom,
      stored_discovered_services = None,
      written = [], monitored = [], delivered = [], notified = []\<rparr>"

definition setDataCallback :: "manager \<Rightarrow> manager" where
  "setDataCallback m = m\<lparr>dataCallback := True\<rparr>"

definition call_dataCallback :: "payload \<Rightarrow> manager \<Rightarrow> manager" where
  "call_dataCallback p m = (if dataCallback m then m\<lparr>delivered := delivered m @ [p]\<rparr> else m)"

text \<open>
  \<^verbatim>\<open>cacheData\<close> is asynchronous and never awaited by its callers; the write, or the
  log entry of its failure, is placed where the call is made.
\<close>

definition cacheData :: "env \<Rightarrow> telemetry \<Rightarrow> manager \<Rightarrow> manager" where
  "cacheData e d m =
     (if cachedDataEnabled m then
        (case storage_write_error e of
           None \<Rightarrow> m\<lparr>stored_cached_data := Some d\<rparr>
         | Some err \<Rightarrow> log_op e ''ERROR'' (Text (''Failed to cache data: '' @ err)) m)
      else m)"

section \<open>The frame decoder\<close>

text \<open>
  \<^verbatim>\<open>parseIncomingData\<close> starts from \<^verbatim>\<open>Buffer.from(base64Data, 'base64')\<close>; the model
  starts from the decoded bytes. The three strategies are the three object literals of
  the source, each read evaluated in the order it is written.
\<close>

definition strategy1 :: "buffer \<Rightarrow> exn + tier_data" where
  "strategy1 buf =
     bind (readUInt8 buf 0) (\<lambda>b0.
     bind (readUInt8 buf 1) (\<lambda>b1.
     bind (readUInt16BE buf 2) (\<lambda>w.
     bind (readUInt8 buf 4) (\<lambda>b4.
     bind (readUInt8 buf 5) (\<lambda>b5.
     bind (readUInt8 buf 6) (\<lambda>b6.
     bind (readUInt32BE buf 7) (\<lambda>odo.
       Inr \<lparr>speed = Num (real (or_num b0 0)),
            gear = Num (real (or_num b1 1)),
            rpm = real (or_num (w * 10) 0),
            fuel = real (or_num b4 0),
            ridingMode = or_str ([''Road'', ''Rain'', ''Off-Road''] ! (b5 mod 3)) ''Road'',
            highBeam = (b6 AND 1 \<noteq> 0),
            hazard = (b6 AND 2 \<noteq> 0),
            engineCheck = (b6 AND 4 \<noteq> 0),
            battery = (b6 AND 8 \<noteq> 0),
            odometer = or_str (show_nat odo) ''00000''\<rparr>)))))))"

definition strategy2 :: "buffer \<Rightarrow> exn + tier_data" where
  "strategy2 buf =
     bind (readUInt8 buf 0) (\<lambda>b0.
     bind (readUInt8 buf 1) (\<lambda>b1.
     bind (readUInt16BE buf 2) (\<lambda>w.
       Inr \<lparr>speed = Num (real (or_num b0 0)),
            gear = Num (real (max (or_num b1 1) 1)),
            rpm = real (or_num (w * 50) 0),
            fuel = 50,
            ridingMode = ''Road'',
            highBeam = False, hazard = False, engineCheck = False, battery = True,
            odometer = ''00000''\<rparr>)))"

definition strategy3 :: "buffer \<Rightarrow> exn + tier_data" where
  "strategy3 buf =
     bind (if length buf > 0 then readUInt8 buf 0 else Inr 0) (\<lambda>b0.
       Inr \<lparr>speed = Num (real b0),
            gear = Num 1,
            rpm = 0,
            fuel = 0,
            ridingMode = ''Road'',
            highBeam = False, hazard = False, engineCheck = False, battery = False,
            odometer = ''--''\<rparr>)"

definition decode :: "buffer \<Rightarrow> exn + tier_data" where
  "decode buf =
     (if length buf \<ge> 10 then strategy1 buf
      else if length buf \<ge> 4 then strategy2 buf
      else strategy3 buf)"

text \<open>
  No strategy sets the trip and fuel-economy fields, so each \<^verbatim>\<open>if (!data.tripA)\<close>
  test succeeds and the four fields are drawn at random.
\<close>

definition add_trip_data :: "env \<Rightarrow> tier_data \<Rightarrow> telemetry" where
  "add_trip_data e d =
     \<lparr>speed = speed d, gear = gear d, rpm = rpm d, fuel = fuel d, ridingMode = ridingMode d,
      highBeam = highBeam d, hazard = hazard d, engineCheck = engineCheck d,
      battery = battery d, odometer = odometer d,
      tripA = toFixed1 (random e 0 * 200 + 100),
      tripB = toFixed1 (random e 1 * 500 + 200),
      afe = toFixed1 (random e 2 * 10 + 15),
      bfe = toFixed1 (random e 3 * 8 + 14)\<rparr>"

definition fallbackData :: telemetry where
  "fallbackData =
     \<lparr>speed = Str ''--'', gear = Str ''--'', rpm = 0, fuel = 0, ridingMode = ''Road'',
      highBeam = False, hazard = False, engineCheck = False, battery = False,
      odometer = ''--'', tripA = ''--'', tripB = ''--'', afe = ''--'', bfe = ''--''\<rparr>"

text \<open>The body of the \<^verbatim>\<open>try\<close> block: \<open>Inl\<close> is the exception that leaves it.\<close>

definition try_parse :: "env \<Rightarrow> buffer \<Rightarrow> manager \<Rightarrow> (exn + unit) \<times> manager" where
  "try_parse e buf m0 =
     (let m1 = log_op e ''INFO'' (Text (''Received BLE data: '' @ toHex buf)) m0;
          m2 = (if length buf \<ge> 10 then m1
                else if length buf \<ge> 4 then
                  log_op e ''WARN'' (Text (''Short data packet: '' @ show_nat (length buf)
                                          @ '' bytes, minimal parsing'')) m1
                else
                  log_op e ''WARN'' (Text (''Very short data packet: '' @ show_nat (length buf)
                                          @ '' bytes, basic parsing'')) m1)
      in case decode buf of
           Inl err \<Rightarrow> (Inl err, m2)
         | Inr d \<Rightarrow>
             (let data = add_trip_data e d;
                  m3 = log_op e ''INFO'' (ParsedData data) m2;
                  m4 = m3\<lparr>lastKnownData := Some data\<rparr>;
                  m5 = cacheData e data m4
              in (Inr (), call_dataCallback (Telemetry data) m5)))"

definition parseIncomingData :: "env \<Rightarrow> buffer \<Rightarrow> manager \<Rightarrow> manager" where
  "parseIncomingData e buf m =
     (case try_parse e buf m of
        (Inr u, m') \<Rightarrow> m'
      | (Inl err, m') \<Rightarrow>
          call_dataCallback (Telemetry fallbackData)
            (log_op e ''ERROR'' (Text (''Data parsing failed: '' @ err)) m'))"

section \<open>Concrete inputs\<close>

text \<open>An environment, a manager and a run of log calls on which the theorems are exercised.\<close>

definition example_env :: env where
  "example_env =
     \<lparr>now = 0, random = (\<lambda>k. 0), storage_write_error = None, cached_read_error = None,
      settings_read_error = None, location_request = Inr ''granted'',
      camera_request = Inr ''granted'', location_status = Inr ''granted'',
      watch_error = None, accelerometer_error = None, digest_error = None\<rparr>"

definition example_manager :: manager where
  "example_manager = setDataCallback (constructor None None)"

definition example_calls :: "(env \<times> string \<times> message) list" where
  "example_calls =
     (example_env, ''INFO'', Text ''first'') # replicate 500 (example_env, ''WARN'', Text ''later'')"

text \<open>The frame of the specification's example.\<close>

definition example_frame :: buffer where
  "example_frame = [45, 3, 0x02, 0x58, 60, 0, 0x05, 0, 0, 0, 100]"

text \<open>Frames of 4, 10 and 4 bytes (the last with a gear byte of 0).\<close>

definition short_frame :: buffer where
  "short_frame = [45, 3, 0x02, 0x58]"

definition truncated_frame :: buffer where
  "truncated_frame = [45, 3, 0x02, 0x58, 60, 0, 0x05, 0, 0, 0]"

definition zero_gear_frame :: buffer where
  "zero_gear_frame = [7, 0, 0, 0]"

section \<open>The synthetic generator\<close>

text \<open>
  \<open>mockData\<close> as the object the callback and the cache receive. Its fields are numbers;
  the gear moves in whole steps and is an integer.
\<close>

definition telemetry_of_mock :: "mock_data \<Rightarrow> telemetry" where
  "telemetry_of_mock d =
     \<lparr>speed = Num (mock_speed d), gear = Num (real_of_int (mock_gear d)), rpm = mock_rpm d,
      fuel = mock_fuel d, ridingMode = mock_ridingMode d, highBeam = mock_highBeam d,
      hazard = mock_hazard d, engineCheck = mock_engineCheck d, battery = mock_battery d,
      odometer = mock_odometer d, tripA = mock_tripA d, tripB = mock_tripB d,
      afe = mock_afe d, bfe = mock_bfe d\<rparr>"

text \<open>
  One run of the function given to \<^verbatim>\<open>setInterval\<close>: four conditional updates of
  \<open>mockData\<close>, then the copy to \<open>lastKnownData\<close>, the cache and the callback.
  \<^verbatim>\<open>Math.random()\<close> is called once in each branch that is taken (twice in the gear
  branch), so each step carries the index of the next call along.
\<close>

definition step_speed :: "env \<Rightarrow> mock_data \<times> nat \<Rightarrow> mock_data \<times> nat" where
  "step_speed e dk =
     (case dk of (d, k) \<Rightarrow>
        if mock_speed d > 0
        then (d\<lparr>mock_speed := max 0 (mock_speed d + (random e k - 1 / 2) * 5)\<rparr>, k + 1)
        else (d, k))"

definition step_rpm :: "env \<Rightarrow> mock_data \<times> nat \<Rightarrow> mock_data \<times> nat" where
  "step_rpm e dk =
     (case dk of (d, k) \<Rightarrow>
        if mock_rpm d > 0
        then (d\<lparr>mock_rpm := max 0 (mock_rpm d + (random e k - 1 / 2) * 200)\<rparr>, k + 1)
        else (d, k))"

definition step_fuel :: "env \<Rightarrow> mock_data \<times> nat \<Rightarrow> mock_data \<times> nat" where
  "step_fuel e dk =
     (case dk of (d, k) \<Rightarrow>
        if mock_fuel d > 0
        then (d\<lparr>mock_fuel := max 0 (mock_fuel d - random e k * (5 / 100))\<rparr>, k + 1)
        else (d, k))"

definition step_gear :: "env \<Rightarrow> mock_data \<times> nat \<Rightarrow> mock_data" where
  "step_gear e dk =
     (case dk of (d, k) \<Rightarrow>
        if mock_speed d > 10 \<and> random e k > 98 / 100
        then d\<lparr>mock_gear :=
                max 1 (min 6 (mock_gear d + (if random e (k + 1) > 1 / 2 then 1 else - 1)))\<rparr>
        else d)"

definition mock_tick :: "env \<Rightarrow> manager \<Rightarrow> manager" where
  "mock_tick e m =
     (let d = step_gear e (step_fuel e (step_rpm e (step_speed e (mockData m, 0))));
          m1 = m\<lparr>mockData := d\<rparr>;
          m2 = m1\<lparr>lastKnownData := Some (telemetry_of_mock d)\<rparr>;
          m3 = cacheData e (telemetry_of_mock d) m2
      in call_dataCallback (Telemetry (telemetry_of_mock d)) m3)"

definition startMockDataSimulation :: "manager \<Rightarrow> manager" where
  "startMockDataSimulation m = m\<lparr>mockDataInterval := True\<rparr>"

text \<open>The ticks of a running timer, each in the environment of its own moment.\<close>

fun mock_run :: "env list \<Rightarrow> manager \<Rightarrow> manager" where
  "mock_run [] m = m"
| "mock_run (e # es) m = mock_run es (mock_tick e m)"

section \<open>Initialisation\<close>

definition requestPermissions :: "env \<Rightarrow> manager \<Rightarrow> manager" where
  "requestPermissions e m =
     (case location_request e of
        Inl err \<Rightarrow> log_op e ''ERROR'' (Text (''Permission request failed: '' @ err)) m
      | Inr locationStatus \<Rightarrow>
          (let m1 = (if locationStatus \<noteq> ''granted''
                     then log_op e ''WARN''
                            (Text ''Location permission denied - GPS fallback unavailable'') m
                     else m)
           in case camera_request e of
                Inl err \<Rightarrow> log_op e ''ERROR'' (Text (''Permission request failed: '' @ err)) m1
              | Inr cameraStatus \<Rightarrow>
                  (let m2 = (if cameraStatus \<noteq> ''granted''
                             then log_op e ''WARN''
                                    (Text ''Camera permission denied - QR code authentication unavailable'') m1
                             else m1)
                   in log_op e ''INFO'' (Text ''Permissions requested'') m2)))"

text \<open>
  The stored settings item is the whole settings object \<^verbatim>\<open>updateCustomSettings\<close> wrote,
  so spreading it over the current settings replaces all three fields.
\<close>

definition loadCachedSettings :: "env \<Rightarrow> manager \<Rightarrow> manager" where
  "loadCachedSettings e m =
     (case cached_read_error e of
        Some err \<Rightarrow> log_op e ''ERROR'' (Text (''Failed to load cached settings: '' @ err)) m
      | None \<Rightarrow>
          (let m1 = (case stored_cached_data m of
                       Some cached \<Rightarrow>
                         log_op e ''INFO'' (Text ''Loaded cached data'') (m\<lparr>lastKnownData := Some cached\<rparr>)
                     | None \<Rightarrow> m)
           in case settings_read_error e of
                Some err \<Rightarrow> log_op e ''ERROR'' (Text (''Failed to load cached settings: '' @ err)) m1
              | None \<Rightarrow>
                  (case stored_custom_settings m1 of
                     Some custom \<Rightarrow>
                       log_op e ''INFO'' (Text ''Loaded custom BLE settings'')
                         (m1\<lparr>customSettings := custom\<rparr>)
                   | None \<Rightarrow> m1)))"

text \<open>
  \<^verbatim>\<open>initialize\<close> returns the exception it rejects with, if any. Each call inside its
  \<^verbatim>\<open>try\<close> block catches its own exceptions, so nothing reaches the \<^verbatim>\<open>catch\<close> clause
  that would log and rethrow.
\<close>

definition initialize :: "env \<Rightarrow> manager \<Rightarrow> exn option \<times> manager" where
  "initialize e m =
     (let m1 = log_op e ''INFO'' (Text ''Initializing BLE Manager'') m;
          m2 = requestPermissions e m1;
          m3 = loadCachedSettings e m2;
          m4 = (if mockDataEnabled m3 then startMockDataSimulation m3 else m3)
      in (None, log_op e ''INFO'' (Text ''BLE Manager initialized successfully'') m4))"

section \<open>The telemetry cache of the storage manager\<close>

text \<open>
  \<^verbatim>\<open>AsyncStorage\<close> maps a key to a JSON text; the model keeps the value the text
  encodes. The item under \<^verbatim>\<open>CACHED_DATA\<close> is an object with the fields of the saved
  record and, when written by \<^verbatim>\<open>saveCachedData\<close>, a \<^verbatim>\<open>timestamp\<close>. The first argument
  of each operation is \<open>Some\<close> the message when the \<^verbatim>\<open>AsyncStorage\<close> call rejects, the
  clock reading \<^verbatim>\<open>Date.now()\<close> is passed in, and \<open>None\<close> is \<^verbatim>\<open>null\<close>.
\<close>

record 'a cache_item =
  item_data :: 'a
  item_timestamp :: "int option"

type_synonym 'v async_storage = "string \<Rightarrow> 'v option"

definition CACHED_DATA :: string where
  "CACHED_DATA = ''yezdi_cached_data''"

definition setItem :: "exn option \<Rightarrow> string \<Rightarrow> 'v \<Rightarrow> 'v async_storage \<Rightarrow> bool \<times> 'v async_storage" where
  "setItem io key v st = (case io of None \<Rightarrow> (True, st(key \<mapsto> v)) | Some err \<Rightarrow> (False, st))"

definition getItem :: "exn option \<Rightarrow> string \<Rightarrow> 'v option \<Rightarrow> 'v async_storage \<Rightarrow> 'v option" where
  "getItem io key defaultValue st =
     (case io of
        None \<Rightarrow> (case st key of Some v \<Rightarrow> Some v | None \<Rightarrow> defaultValue)
      | Some err \<Rightarrow> defaultValue)"

definition removeItem :: "exn option \<Rightarrow> string \<Rightarrow> 'v async_storage \<Rightarrow> bool \<times> 'v async_storage" where
  "removeItem io key st = (case io of None \<Rightarrow> (True, st(key := None)) | Some err \<Rightarrow> (False, st))"

definition saveCachedData ::
  "exn option \<Rightarrow> int \<Rightarrow> 'a \<Rightarrow> 'a cache_item async_storage \<Rightarrow> bool \<times> 'a cache_item async_storage" where
  "saveCachedData io clock d st =
     setItem io CACHED_DATA \<lparr>item_data = d, item_timestamp = Some clock\<rparr> st"

text \<open>The test \<^verbatim>\<open>data && data.timestamp\<close>: a missing timestamp and the number 0 are falsy.\<close>

definition getCachedData ::
  "exn option \<Rightarrow> int \<Rightarrow> 'a cache_item async_storage \<Rightarrow> 'a cache_item option" where
  "getCachedData io clock st =
     (case getItem io CACHED_DATA None st of
        None \<Rightarrow> None
      | Some d \<Rightarrow>
          (case item_timestamp d of
             None \<Rightarrow> None
           | Some ts \<Rightarrow>
               if ts \<noteq> 0 then
                 (let isRecent = (clock - ts < 60 * 60 * 1000)
                  in if isRecent then Some d else None)
               else None))"

text \<open>A manager whose synthetic speed is 50, and draws that make the gear event fire.\<close>

definition riding_manager :: manager where
  "riding_manager =
     example_manager\<lparr>mockData := initial_mockData\<lparr>mock_speed := 50, mock_rpm := 4000, mock_gear := 3\<rparr>\<rparr>"

definition shifting_env :: env where
  "shifting_env = example_env\<lparr>random := (\<lambda>k. if k < 2 then 1 / 2 else 99 / 100)\<rparr>"

text \<open>A clock reading, in milliseconds since the epoch.\<close>

definition example_time :: int where
  "example_time = 1700000000000"

text \<open>Permissions refused by the user.\<close>

definition denied_env :: env where
  "denied_env = example_env\<lparr>location_request := Inr ''denied'', camera_request := Inr ''denied''\<rparr>"

text \<open>A manager whose storage holds a cached record and custom settings.\<close>

definition stocked_manager :: manager where
  "stocked_manager =
     constructor (Some fallbackData)
       (Some \<lparr>serviceUUID = ''fff0'', charUUID = ''fff1'', authKey = ''KEY''\<rparr>)"

section \<open>Speed estimated from location fixes\<close>

text \<open>
  A fix as delivered by \<^verbatim>\<open>Location.watchPositionAsync\<close>: the coordinates and the
  timestamp in milliseconds. The arithmetic of the estimate is done on reals.
\<close>

record location =
  latitude :: real
  longitude :: real
  accuracy :: real
  altitude :: real
  heading :: real
  loc_timestamp :: real

text \<open>\<^verbatim>\<open>Math.atan2(y, x)\<close>.\<close>

definition atan2 :: "real \<Rightarrow> real \<Rightarrow> real" where
  "atan2 y x =
     (if x > 0 then arctan (y / x)
      else if x < 0 \<and> y \<ge> 0 then arctan (y / x) + pi
      else if x < 0 then arctan (y / x) - pi
      else if y > 0 then pi / 2
      else if y < 0 then - pi / 2
      else 0)"

definition calculateDistance :: "real \<Rightarrow> real \<Rightarrow> real \<Rightarrow> real \<Rightarrow> real" where
  "calculateDistance lat1 lon1 lat2 lon2 =
     (let R = 6371000;
          dLat = (lat2 - lat1) * pi / 180;
          dLon = (lon2 - lon1) * pi / 180;
          a = sin (dLat / 2) * sin (dLat / 2)
              + cos (lat1 * pi / 180) * cos (lat2 * pi / 180) * sin (dLon / 2) * sin (dLon / 2);
          c = 2 * atan2 (sqrt a) (sqrt (1 - a))
      in R * c)"

text \<open>\<^verbatim>\<open>Math.round\<close>: the nearest integer, the larger one on a tie.\<close>

definition math_round :: "real \<Rightarrow> real" where
  "math_round x = of_int \<lfloor>x + 1 / 2\<rfloor>"

subsection \<open>The GPS fallback of the BLE manager\<close>

text \<open>
  The two variables the location handler of \<^verbatim>\<open>startGPSFallback\<close> closes over; both are
  \<^verbatim>\<open>null\<close> until the first fix.
\<close>

record gps_watch =
  lastLocation :: "location option"
  lastTime :: "real option"

definition initial_watch :: gps_watch where
  "initial_watch = \<lparr>lastLocation = None, lastTime = None\<rparr>"

text \<open>
  The estimate in km/h. When the two timestamps are equal the division gives
  \<^verbatim>\<open>Infinity\<close> or \<^verbatim>\<open>NaN\<close>, for which both comparisons of the range test are false: that
  outcome is \<open>None\<close>.
\<close>

definition gps_speed :: "location \<Rightarrow> real \<Rightarrow> location \<Rightarrow> real option" where
  "gps_speed l t loc =
     (let distance = calculateDistance (latitude l) (longitude l) (latitude loc) (longitude loc);
          timeDiff = (loc_timestamp loc - t) / 1000
      in if timeDiff = 0 then None else Some ((distance / timeDiff) * (36 / 10)))"

text \<open>The object \<^verbatim>\<open>{...this.lastKnownData, speed: Math.round(speed)}\<close>.\<close>

definition gps_payload :: "telemetry option \<Rightarrow> real \<Rightarrow> payload" where
  "gps_payload known v =
     (case known of
        Some t \<Rightarrow> Telemetry (t\<lparr>speed := Num (math_round v)\<rparr>)
      | None \<Rightarrow> SpeedOnly (math_round v))"

text \<open>The location handler: \<^verbatim>\<open>lastLocation && lastTime\<close> needs a fix and a timestamp other than 0.\<close>

definition on_location :: "env \<Rightarrow> location \<Rightarrow> gps_watch \<times> manager \<Rightarrow> gps_watch \<times> manager" where
  "on_location e loc wm =
     (case wm of (w, m) \<Rightarrow>
        (let m' =
           (case lastLocation w of
              None \<Rightarrow> m
            | Some l \<Rightarrow>
                (case lastTime w of
                   None \<Rightarrow> m
                 | Some t \<Rightarrow>
                     if t \<noteq> 0 then
                       (case gps_speed l t loc of
                          None \<Rightarrow> m
                        | Some v \<Rightarrow>
                            if v > 0 \<and> v < 200 then
                              (let m1 = log_op e ''INFO''
                                          (Text (''GPS speed estimate: '' @ toFixed1 v @ '' km/h'')) m
                               in call_dataCallback (gps_payload (lastKnownData m1) v) m1)
                            else m)
                     else m))
         in (\<lparr>lastLocation = Some loc, lastTime = Some (loc_timestamp loc)\<rparr>, m')))"

definition startGPSFallback :: "env \<Rightarrow> manager \<Rightarrow> manager" where
  "startGPSFallback e m =
     (case location_status e of
        Inl err \<Rightarrow> log_op e ''ERROR'' (Text (''GPS fallback setup failed: '' @ err)) m
      | Inr status \<Rightarrow>
          if status \<noteq> ''granted''
          then log_op e ''WARN'' (Text ''GPS fallback unavailable - no location permission'') m
          else (case watch_error e of
                  Some err \<Rightarrow> log_op e ''ERROR'' (Text (''GPS fallback setup failed: '' @ err)) m
                | None \<Rightarrow> m\<lparr>gpsSubscription := True\<rparr>))"

subsection \<open>The GPS tracking of the sensor manager\<close>

text \<open>
  What \<^verbatim>\<open>startGPSTracking\<close> hands to its callback; the speed is \<open>None\<close> when it is
  \<^verbatim>\<open>NaN\<close>. The handler takes the clock reading \<^verbatim>\<open>Date.now()\<close>.
\<close>

record location_data =
  ld_speed :: "real option"
  ld_latitude :: real
  ld_longitude :: real
  ld_accuracy :: real
  ld_altitude :: real
  ld_heading :: real
  ld_timestamp :: real

record sensor_manager =
  sm_lastLocation :: "location option"
  sm_lastLocationTime :: "real option"
  reported :: "location_data list"

definition estimatedSpeed :: "sensor_manager \<Rightarrow> real \<Rightarrow> location \<Rightarrow> real option" where
  "estimatedSpeed sm currentTime loc =
     (case sm_lastLocation sm of
        None \<Rightarrow> Some 0
      | Some l \<Rightarrow>
          (case sm_lastLocationTime sm of
             None \<Rightarrow> Some 0
           | Some t \<Rightarrow>
               if t \<noteq> 0 then
                 (let distance = calculateDistance (latitude l) (longitude l)
                                   (latitude loc) (longitude loc);
                      timeDiff = (currentTime - t) / 1000
                  in if timeDiff = 0 then (if distance = 0 then None else Some 0)
                     else (let v = (distance / timeDiff) * (36 / 10)
                           in if v < 0 \<or> v > 300 then Some 0 else Some v))
               else Some 0))"

definition on_tracked_location :: "real \<Rightarrow> location \<Rightarrow> sensor_manager \<Rightarrow> sensor_manager" where
  "on_tracked_location currentTime loc sm =
     \<lparr>sm_lastLocation = Some loc, sm_lastLocationTime = Some currentTime,
      reported = reported sm @
        [\<lparr>ld_speed = map_option math_round (estimatedSpeed sm currentTime loc),
          ld_latitude = latitude loc, ld_longitude = longitude loc,
          ld_accuracy = accuracy loc, ld_altitude = altitude loc, ld_heading = heading loc,
          ld_timestamp = currentTime\<rparr>]\<rparr>"

text \<open>
  Fixes on the equator and the meridian: one at the origin at time 1000, the same place one
  second later, and a point 0.007 degrees north 12.742 or 44.597 seconds later.
\<close>

definition fix_origin :: location where
  "fix_origin = \<lparr>latitude = 0, longitude = 0, accuracy = 5, altitude = 0, heading = 0,
                 loc_timestamp = 1000\<rparr>"

definition fix_same_place :: location where
  "fix_same_place = fix_origin\<lparr>loc_timestamp := 2000\<rparr>"

definition fix_north :: location where
  "fix_north = fix_origin\<lparr>latitude := 7 / 1000, loc_timestamp := 13742\<rparr>"

definition fix_north_slow :: location where
  "fix_north_slow = fix_origin\<lparr>latitude := 7 / 1000, loc_timestamp := 45597\<rparr>"

definition watch_at_origin :: gps_watch where
  "watch_at_origin = \<lparr>lastLocation = Some fix_origin, lastTime = Some 1000\<rparr>"

section \<open>Connecting and authenticating\<close>

text \<open>
  The peripheral as the BLE library presents it: what each asynchronous call answers.
  An \<open>exn option\<close> is \<open>Some\<close> the message when the call rejects
  (\<^verbatim>\<open>connectToDevice\<close>, \<^verbatim>\<open>discoverAllServicesAndCharacteristics\<close>, a characteristic
  write); \<open>services\<close> and \<open>characteristics\<close> answer with a list or reject.
\<close>

record characteristic =
  char_uuid :: string
  isReadable :: bool
  isWritableWithoutResponse :: bool
  isWritableWithResponse :: bool
  isNotifiable :: bool
  write_error :: "exn option"

record service =
  service_uuid :: string
  characteristics :: "exn + characteristic list"

record device =
  device_id :: string
  device_name :: "string option"
  connect_error :: "exn option"
  discover_error :: "exn option"
  services :: "exn + service list"

text \<open>\<^verbatim>\<open>device.name || device.id\<close>.\<close>

definition name_or_id :: "device \<Rightarrow> string" where
  "name_or_id dev = (case device_name dev of None \<Rightarrow> device_id dev | Some n \<Rightarrow> or_str n (device_id dev))"

definition call_connectionCallback :: "bool \<Rightarrow> manager \<Rightarrow> manager" where
  "call_connectionCallback b m = (if connectionCallback m then m\<lparr>notified := notified m @ [b]\<rparr> else m)"

subsection \<open>Service discovery\<close>

fun log_characteristics :: "env \<Rightarrow> characteristic list \<Rightarrow> manager \<Rightarrow> manager" where
  "log_characteristics e [] m = m"
| "log_characteristics e (c # cs) m =
     log_characteristics e cs
       (log_op e ''INFO''
          (Text (''  Characteristic: '' @ char_uuid c @ '' (''
                 @ (if isReadable c then ''R'' else [])
                 @ (if isWritableWithoutResponse c then ''W'' else [])
                 @ (if isNotifiable c then ''N'' else []) @ '')'')) m)"

fun log_services :: "env \<Rightarrow> service list \<Rightarrow> manager \<Rightarrow> (exn + unit) \<times> manager" where
  "log_services e [] m = (Inr (), m)"
| "log_services e (s # ss) m =
     (let m1 = log_op e ''INFO'' (Text (''Found service: '' @ service_uuid s)) m
      in case characteristics s of
           Inl err \<Rightarrow> (Inl err, m1)
         | Inr cs \<Rightarrow> log_services e ss (log_characteristics e cs m1))"

definition discoverServices :: "device \<Rightarrow> env \<Rightarrow> manager \<Rightarrow> manager" where
  "discoverServices dev e m =
     (let m1 = log_op e ''INFO'' (Text ''Discovering services...'') m
      in case discover_error dev of
           Some err \<Rightarrow> log_op e ''ERROR'' (Text (''Service discovery failed: '' @ err)) m1
         | None \<Rightarrow>
             (case services dev of
                Inl err \<Rightarrow> log_op e ''ERROR'' (Text (''Service discovery failed: '' @ err)) m1
              | Inr ss \<Rightarrow>
                  (case log_services e ss m1 of
                     (Inl err, m2) \<Rightarrow>
                       log_op e ''ERROR'' (Text (''Service discovery failed: '' @ err)) m2
                   | (Inr u, m2) \<Rightarrow>
                       (case storage_write_error e of
                          Some err \<Rightarrow>
                            log_op e ''ERROR'' (Text (''Service discovery failed: '' @ err)) m2
                        | None \<Rightarrow>
                            m2\<lparr>stored_discovered_services := Some (map service_uuid ss)\<rparr>))))"

subsection \<open>The three authentication strategies\<close>

text \<open>
  Each strategy returns \<open>Inl\<close> the message of the error it throws. The value written to
  a characteristic is the base64 text of \<open>authKey\<close>; \<open>written\<close> records where it went.
\<close>

fun write_characteristics ::
  "env \<Rightarrow> string \<Rightarrow> characteristic list \<Rightarrow> manager \<Rightarrow> (exn + unit) \<times> manager" where
  "write_characteristics e su [] m = (Inr (), m)"
| "write_characteristics e su (c # cs) m =
     (if isWritableWithoutResponse c \<or> isWritableWithResponse c then
        (case write_error c of
           Some err \<Rightarrow> (Inl err, m)
         | None \<Rightarrow>
             write_characteristics e su cs
               (log_op e ''INFO'' (Text (''Wrote auth key to '' @ char_uuid c))
                  (m\<lparr>written := written m @ [(su, char_uuid c)]\<rparr>)))
      else write_characteristics e su cs m)"

fun write_services :: "env \<Rightarrow> service list \<Rightarrow> manager \<Rightarrow> (exn + unit) \<times> manager" where
  "write_services e [] m = (Inr (), m)"
| "write_services e (s # ss) m =
     (case characteristics s of
        Inl err \<Rightarrow> (Inl err, m)
      | Inr cs \<Rightarrow>
          (case write_characteristics e (service_uuid s) cs m of
             (Inl err, m1) \<Rightarrow> (Inl err, m1)
           | (Inr u, m1) \<Rightarrow> write_services e ss m1))"

definition genericKeyAuthentication :: "device \<Rightarrow> env \<Rightarrow> manager \<Rightarrow> (exn + unit) \<times> manager" where
  "genericKeyAuthentication dev e m =
     (case services dev of
        Inl err \<Rightarrow> (Inl (''Generic auth failed: '' @ err), m)
      | Inr ss \<Rightarrow>
          (case write_services e ss m of
             (Inl err, m1) \<Rightarrow> (Inl (''Generic auth failed: '' @ err), m1)
           | (Inr u, m1) \<Rightarrow> (Inr (), m1)))"

definition challengeResponseAuth :: "device \<Rightarrow> env \<Rightarrow> manager \<Rightarrow> (exn + unit) \<times> manager" where
  "challengeResponseAuth dev e m =
     (case digest_error e of
        Some err \<Rightarrow> (Inl (''Challenge-response auth failed: '' @ err), m)
      | None \<Rightarrow> (Inr (), log_op e ''INFO'' (Text ''Challenge-response auth attempted'') m))"

definition bondingAuthentication :: "device \<Rightarrow> env \<Rightarrow> manager \<Rightarrow> (exn + unit) \<times> manager" where
  "bondingAuthentication dev e m =
     (Inl ''Manual pairing required'',
      log_op e ''INFO'' (Text ''Bonding authentication requires manual Bluetooth pairing'') m)"

text \<open>
  The loop of \<^verbatim>\<open>attemptAuthentication\<close> over the remaining methods; \<open>i\<close> is the loop
  index. It returns as soon as a method does not throw.
\<close>

fun auth_loop ::
  "env \<Rightarrow> nat \<Rightarrow> (manager \<Rightarrow> (exn + unit) \<times> manager) list \<Rightarrow> manager \<Rightarrow> manager" where
  "auth_loop e i [] m =
     log_op e ''WARN''
       (Text ''All authentication methods failed, proceeding without authentication'') m"
| "auth_loop e i (authMethod # rest) m =
     (let m1 = log_op e ''INFO'' (Text (''Attempting authentication method '' @ show_nat (i + 1))) m
      in case authMethod m1 of
           (Inr u, m2) \<Rightarrow>
             log_op e ''INFO''
               (Text (''Authentication method '' @ show_nat (i + 1) @ '' successful'')) m2
         | (Inl err, m2) \<Rightarrow>
             auth_loop e (i + 1) rest
               (log_op e ''WARN''
                  (Text (''Authentication method '' @ show_nat (i + 1) @ '' failed: '' @ err)) m2))"

definition attemptAuthentication :: "device \<Rightarrow> env \<Rightarrow> manager \<Rightarrow> manager" where
  "attemptAuthentication dev e m =
     auth_loop e 0
       [genericKeyAuthentication dev e, challengeResponseAuth dev e, bondingAuthentication dev e] m"

subsection \<open>Data monitoring and the fallbacks\<close>

fun monitor_characteristics ::
  "env \<Rightarrow> string \<Rightarrow> characteristic list \<Rightarrow> manager \<Rightarrow> manager" where
  "monitor_characteristics e su [] m = m"
| "monitor_characteristics e su (c # cs) m =
     (if isNotifiable c then
        monitor_characteristics e su cs
          ((log_op e ''INFO'' (Text (''Subscribing to notifications from '' @ char_uuid c)) m)
             \<lparr>monitored := monitored m @ [(su, char_uuid c)]\<rparr>)
      else monitor_characteristics e su cs m)"

fun monitor_services :: "env \<Rightarrow> service list \<Rightarrow> manager \<Rightarrow> (exn + unit) \<times> manager" where
  "monitor_services e [] m = (Inr (), m)"
| "monitor_services e (s # ss) m =
     (case characteristics s of
        Inl err \<Rightarrow> (Inl err, m)
      | Inr cs \<Rightarrow> monitor_services e ss (monitor_characteristics e (service_uuid s) cs m))"

definition setupDataMonitoring :: "device \<Rightarrow> env \<Rightarrow> manager \<Rightarrow> manager" where
  "setupDataMonitoring dev e m =
     (let m1 = log_op e ''INFO'' (Text ''Setting up data monitoring'') m
      in case services dev of
           Inl err \<Rightarrow> log_op e ''ERROR'' (Text (''Data monitoring setup failed: '' @ err)) m1
         | Inr ss \<Rightarrow>
             (case monitor_services e ss m1 of
                (Inl err, m2) \<Rightarrow>
                  log_op e ''ERROR'' (Text (''Data monitoring setup failed: '' @ err)) m2
              | (Inr u, m2) \<Rightarrow> m2))"

definition startAccelerometerFallback :: "env \<Rightarrow> manager \<Rightarrow> manager" where
  "startAccelerometerFallback e m =
     (case accelerometer_error e of
        Some err \<Rightarrow> log_op e ''ERROR'' (Text (''Accelerometer fallback setup failed: '' @ err)) m
      | None \<Rightarrow> m\<lparr>accelerometerSubscription := True\<rparr>)"

text \<open>
  \<^verbatim>\<open>startGPSFallback\<close> is asynchronous and not awaited: it pauses at its permission query,
  the accelerometer listener is registered, and the GPS set-up completes afterwards.
\<close>

definition setupFallbackDataUpdates :: "env \<Rightarrow> manager \<Rightarrow> manager" where
  "setupFallbackDataUpdates e m =
     (if \<not> sensorFallbackEnabled m then m
      else startGPSFallback e (startAccelerometerFallback e m))"

definition startDataUpdates :: "env \<Rightarrow> manager \<Rightarrow> manager" where
  "startDataUpdates e m =
     (if mockDataEnabled m then startMockDataSimulation m else setupFallbackDataUpdates e m)"

text \<open>
  \<^verbatim>\<open>connectToDevice\<close> returns the exception it rejects with, if any. Discovery,
  authentication and monitoring set-up catch their own exceptions; only the radio-level
  connect can reach the \<^verbatim>\<open>catch\<close> clause.
\<close>

definition connectToDevice :: "device \<Rightarrow> env \<Rightarrow> manager \<Rightarrow> exn option \<times> manager" where
  "connectToDevice dev e m =
     (let m1 = log_op e ''INFO'' (Text (''Attempting to connect to '' @ name_or_id dev)) m
      in case connect_error dev of
           Some err \<Rightarrow>
             (Some err,
              call_connectionCallback False
                (log_op e ''ERROR'' (Text (''Connection failed: '' @ err)) m1))
         | None \<Rightarrow>
             (let m2 = m1\<lparr>connected := True\<rparr>;
                  m3 = log_op e ''INFO'' (Text (''Connected to '' @ name_or_id dev)) m2;
                  m4 = discoverServices dev e m3;
                  m5 = attemptAuthentication dev e m4;
                  m6 = setupDataMonitoring dev e m5;
                  m7 = call_connectionCallback True m6
              in (None, startDataUpdates e m7)))"

text \<open>
  The subscriptions one pass of \<^verbatim>\<open>setupDataMonitoring\<close> makes: every notifiable
  characteristic of every service, up to the first service whose characteristics cannot
  be listed.
\<close>

fun subscriptions :: "service list \<Rightarrow> (string \<times> string) list" where
  "subscriptions [] = []"
| "subscriptions (s # ss) =
     (case characteristics s of
        Inl err \<Rightarrow> []
      | Inr cs \<Rightarrow>
          map (\<lambda>c. (service_uuid s, char_uuid c)) (filter isNotifiable cs) @ subscriptions ss)"

definition subscriptions_of :: "device \<Rightarrow> (string \<times> string) list" where
  "subscriptions_of dev = (case services dev of Inl err \<Rightarrow> [] | Inr ss \<Rightarrow> subscriptions ss)"

text \<open>The log entry of a call of \<^verbatim>\<open>log\<close> with a plain string.\<close>

definition entry :: "env \<Rightarrow> string \<Rightarrow> string \<Rightarrow> log_entry" where
  "entry e lvl s = \<lparr>timestamp = now e, level = lvl, message = Text s\<rparr>"

text \<open>
  A peripheral with one service: a writable characteristic whose write is refused and a
  notifiable one. An environment in which the digest is unavailable.
\<close>

definition example_device :: device where
  "example_device =
     \<lparr>device_id = ''AA:BB:CC'', device_name = Some ''Yezdi'', connect_error = None,
      discover_error = None,
      services = Inr
        [\<lparr>service_uuid = ''fff0'',
          characteristics = Inr
            [\<lparr>char_uuid = ''fff1'', isReadable = False, isWritableWithoutResponse = True,
              isWritableWithResponse = False, isNotifiable = False,
              write_error = Some ''Write failed''\<rparr>,
             \<lparr>char_uuid = ''fff2'', isReadable = True, isWritableWithoutResponse = False,
              isWritableWithResponse = False, isNotifiable = True,
              write_error = None\<rparr>]\<rparr>]\<rparr>"

definition no_digest_env :: env where
  "no_digest_env = example_env\<lparr>digest_error := Some ''digest unavailable''\<rparr>"

text \<open>A manager with both callbacks registered.\<close>

definition listening_manager :: manager where
  "listening_manager = example_manager\<lparr>connectionCallback := True\<rparr>"

section \<open>The operational log is bounded and evicts oldest-first\<close>

lemma slice_slice: "slice_last n (slice_last n xs @ ys) = slice_last n (xs @ ys)"
  by (cases "n \<le> length xs") (auto simp: slice_last_def add.commute)

lemma log_op_logs:
  "debugLogs (log_op e lvl msg m) =
   slice_last 500 (debugLogs m @ [\<lparr>timestamp = now e, level = lvl, message = msg\<rparr>])"
  by (auto simp: log_op_def Let_def slice_last_def)

lemma log_all_logs:
  "cs \<noteq> [] \<Longrightarrow> debugLogs (log_all cs m) = slice_last 500 (debugLogs m @ map entry_of cs)"
proof (induction cs arbitrary: m)
  case Nil
  then show ?case by simp
next
  case (Cons c cs)
  obtain e lvl msg where c: "c = (e, lvl, msg)" by (cases c)
  show ?case
  proof (cases "cs = []")
    case True
    then show ?thesis by (simp add: c log_op_logs entry_of_def)
  next
    case False
    then show ?thesis using Cons.IH [of "log_op e lvl msg m"]
      by (simp add: c log_op_logs slice_slice entry_of_def)
  qed
qed

lemma log_op_length: "length (debugLogs (log_op e lvl msg m)) \<le> 500"
  by (simp add: log_op_logs slice_last_def)

text \<open>
  Claim C2. After every call of \<^verbatim>\<open>log\<close> the log holds at most 500 entries, whatever
  it held before. After 501 calls on an empty log, \<^verbatim>\<open>getDebugLogs()\<close> is exactly the
  entries of calls 2 to 501 in order: the entry of the first call has been dropped and the
  entry of the 501st call is the last one. (Entries are compared as values, so absence of
  the first entry is stated for runs in which no later call repeats it.)
\<close>

theorem log_capacity_fifo:
  "length (getDebugLogs (log_op e lvl msg m)) \<le> 500
   \<and> (debugLogs m = [] \<and> length cs = 501 \<longrightarrow>
        getDebugLogs (log_all cs m) = map entry_of (tl cs)
        \<and> length (getDebugLogs (log_all cs m)) = 500
        \<and> entry_of (last cs) \<in> set (getDebugLogs (log_all cs m))
        \<and> (entry_of (hd cs) \<notin> set (map entry_of (tl cs)) \<longrightarrow>
             entry_of (hd cs) \<notin> set (getDebugLogs (log_all cs m))))"
proof (intro conjI impI)
  show "length (getDebugLogs (log_op e lvl msg m)) \<le> 500"
    by (simp add: getDebugLogs_def log_op_length)
next
  assume a: "debugLogs m = [] \<and> length cs = 501"
  then obtain c cs' where cs: "cs = c # cs'" and l: "length cs' = 500"
    by (cases cs) auto
  have eq: "getDebugLogs (log_all cs m) = map entry_of (tl cs)"
    using a log_all_logs [of cs m] by (simp add: getDebugLogs_def cs l slice_last_def)
  show "getDebugLogs (log_all cs m) = map entry_of (tl cs)" by (rule eq)
  show "length (getDebugLogs (log_all cs m)) = 500" unfolding eq by (simp add: cs l)
  have ne: "cs' \<noteq> []" using l by auto
  show "entry_of (last cs) \<in> set (getDebugLogs (log_all cs m))"
    unfolding eq using ne by (simp add: cs last_map)
  assume "entry_of (hd cs) \<notin> set (map entry_of (tl cs))"
  then show "entry_of (hd cs) \<notin> set (getDebugLogs (log_all cs m))" unfolding eq .
qed

theorem log_capacity_fifo_witness:
  "getDebugLogs (log_all example_calls example_manager) = map entry_of (tl example_calls)
   \<and> entry_of (last example_calls) \<in> set (getDebugLogs (log_all example_calls example_manager))
   \<and> entry_of (hd example_calls) \<notin> set (getDebugLogs (log_all example_calls example_manager))"
proof -
  have h1: "debugLogs example_manager = [] \<and> length example_calls = 501"
    by (simp add: example_manager_def setDataCallback_def constructor_def example_calls_def)
  have h2: "entry_of (hd example_calls) \<notin> set (map entry_of (tl example_calls))"
    by (simp add: example_calls_def entry_of_def)
  show ?thesis
    using log_capacity_fifo [of example_env "''INFO''" "Text []" example_manager example_calls] h1 h2
    by blast
qed

section \<open>The frame decoder\<close>

lemma show_nat_nonempty: "show_nat n \<noteq> []"
  by (subst show_nat.simps) simp

lemma or_str_show_nat: "or_str (show_nat n) d = show_nat n"
  by (simp add: or_str_def show_nat_nonempty)

lemma and_pow2_unat: "(unat (w :: 8 word) AND 2 ^ n \<noteq> 0) = bit w n"
  by (simp add: and_exp_eq_0_iff_not_bit bit_unsigned_iff) 

lemma or_num_0: "or_num a 0 = a"
  by (simp add: or_num_def)

lemma or_num_1: "or_num (unat w) 1 = (if w = 0 then 1 else unat w)"
  by (simp add: or_num_def unat_eq_0)

lemma flag_bits:
  "(unat (w :: 8 word) AND 1 \<noteq> 0) = bit w 0"
  "(unat w AND 2 \<noteq> 0) = bit w 1"
  "(unat w AND 4 \<noteq> 0) = bit w 2"
  "(unat w AND 8 \<noteq> 0) = bit w 3"
  using and_pow2_unat [of w 0] and_pow2_unat [of w 1] and_pow2_unat [of w 2] and_pow2_unat [of w 3]
  by simp_all

lemma mode_index:
  "or_str ([''Road'', ''Rain'', ''Off-Road''] ! (k mod 3)) ''Road'' = [''Road'', ''Rain'', ''Off-Road''] ! (k mod 3)"
proof -
  have "k mod 3 = 0 \<or> k mod 3 = 1 \<or> k mod 3 = 2" by arith
  then show ?thesis by (auto simp: or_str_def)
qed

lemma readUInt8_in: "k < length buf \<Longrightarrow> readUInt8 buf k = Inr (unat (buf ! k))"
  by (simp add: readUInt8_def)

lemma readUInt16BE_in:
  "k + 1 < length buf \<Longrightarrow> readUInt16BE buf k = Inr (unat (buf ! k) * 256 + unat (buf ! (k + 1)))"
  by (simp add: readUInt16BE_def)

lemma readUInt32BE_in:
  "k + 3 < length buf \<Longrightarrow>
   readUInt32BE buf k = Inr (unat (buf ! k) * 16777216
      + (unat (buf ! (k + 1)) * 65536 + unat (buf ! (k + 2)) * 256 + unat (buf ! (k + 3))))"
  by (simp add: readUInt32BE_def)

lemma bind_Inr: "bind (Inr v) f = f v"
  by (simp add: bind_def)

lemma bind_Inl: "bind (Inl e) f = Inl e"
  by (simp add: bind_def)

lemma strategy1_value:
  assumes "11 \<le> length buf"
  shows "strategy1 buf =
     Inr \<lparr>speed = Num (real (unat (buf ! 0))),
          gear = Num (real (if buf ! 1 = 0 then 1 else unat (buf ! 1))),
          rpm = real ((unat (buf ! 2) * 256 + unat (buf ! 3)) * 10),
          fuel = real (unat (buf ! 4)),
          ridingMode = [''Road'', ''Rain'', ''Off-Road''] ! (unat (buf ! 5) mod 3),
          highBeam = bit (buf ! 6) 0, hazard = bit (buf ! 6) 1,
          engineCheck = bit (buf ! 6) 2, battery = bit (buf ! 6) 3,
          odometer = show_nat (unat (buf ! 7) * 16777216
                       + (unat (buf ! 8) * 65536 + unat (buf ! 9) * 256 + unat (buf ! 10)))\<rparr>"
proof -
  have r: "readUInt8 buf 0 = Inr (unat (buf ! 0))" "readUInt8 buf 1 = Inr (unat (buf ! 1))"
    "readUInt8 buf 4 = Inr (unat (buf ! 4))" "readUInt8 buf 5 = Inr (unat (buf ! 5))"
    "readUInt8 buf 6 = Inr (unat (buf ! 6))"
    using assms by (auto simp: readUInt8_def)
  have w: "readUInt16BE buf 2 = Inr (unat (buf ! 2) * 256 + unat (buf ! 3))"
    using assms readUInt16BE_in [of 2 buf] by simp
  have o: "readUInt32BE buf 7 = Inr (unat (buf ! 7) * 16777216
      + (unat (buf ! 8) * 65536 + unat (buf ! 9) * 256 + unat (buf ! 10)))"
    using assms readUInt32BE_in [of 7 buf] by simp
  show ?thesis
    unfolding strategy1_def r w o bind_Inr or_num_0 or_num_1 flag_bits mode_index or_str_show_nat ..
qed

lemma strategy1_length10:
  assumes "length buf = 10"
  shows "strategy1 buf = Inl rangeError"
proof -
  have r: "readUInt8 buf 0 = Inr (unat (buf ! 0))" "readUInt8 buf 1 = Inr (unat (buf ! 1))"
    "readUInt8 buf 4 = Inr (unat (buf ! 4))" "readUInt8 buf 5 = Inr (unat (buf ! 5))"
    "readUInt8 buf 6 = Inr (unat (buf ! 6))"
    using assms by (auto simp: readUInt8_def)
  have w: "readUInt16BE buf 2 = Inr (unat (buf ! 2) * 256 + unat (buf ! 3))"
    using assms readUInt16BE_in [of 2 buf] by simp
  have o: "readUInt32BE buf 7 = Inl rangeError"
    using assms by (simp add: readUInt32BE_def)
  show ?thesis
    unfolding strategy1_def r w o bind_Inr bind_Inl ..
qed

lemma strategy2_value:
  assumes "4 \<le> length buf"
  shows "strategy2 buf =
     Inr \<lparr>speed = Num (real (unat (buf ! 0))),
          gear = Num (real (max 1 (unat (buf ! 1)))),
          rpm = real ((unat (buf ! 2) * 256 + unat (buf ! 3)) * 50),
          fuel = 50, ridingMode = ''Road'',
          highBeam = False, hazard = False, engineCheck = False, battery = True,
          odometer = ''00000''\<rparr>"
proof -
  have r: "readUInt8 buf 0 = Inr (unat (buf ! 0))" "readUInt8 buf 1 = Inr (unat (buf ! 1))"
    using assms by (auto simp: readUInt8_def)
  have w: "readUInt16BE buf 2 = Inr (unat (buf ! 2) * 256 + unat (buf ! 3))"
    using assms readUInt16BE_in [of 2 buf] by simp
  show ?thesis
    unfolding strategy2_def r w bind_Inr or_num_0 or_num_1
    by (simp add: max_def unat_eq_0)
qed

lemma strategy3_value:
  "strategy3 buf =
     Inr \<lparr>speed = Num (if buf = [] then 0 else real (unat (buf ! 0))),
          gear = Num 1, rpm = 0, fuel = 0, ridingMode = ''Road'',
          highBeam = False, hazard = False, engineCheck = False, battery = False,
          odometer = ''--''\<rparr>"
  by (cases buf) (simp_all add: strategy3_def bind_def readUInt8_def)

lemma decode_raises_iff: "(\<exists>err. decode buf = Inl err) \<longleftrightarrow> length buf = 10"
proof -
  consider "11 \<le> length buf" | "length buf = 10" | "4 \<le> length buf" "length buf \<le> 9" | "length buf < 4"
    by linarith
  then show ?thesis
  proof cases
    case 1 then show ?thesis using strategy1_value [OF 1] by (simp add: decode_def)
  next
    case 2 then show ?thesis using strategy1_length10 [OF 2] by (simp add: decode_def)
  next
    case 3 then show ?thesis using strategy2_value [of buf] by (simp add: decode_def)
  next
    case 4 then show ?thesis using strategy3_value [of buf] by (simp add: decode_def)
  qed
qed

lemma call_dataCallback_delivered:
  "delivered (call_dataCallback p m) = (if dataCallback m then delivered m @ [p] else delivered m)"
  by (simp add: call_dataCallback_def)

lemma log_op_other [simp]:
  "lastKnownData (log_op e lvl msg m) = lastKnownData m"
  "delivered (log_op e lvl msg m) = delivered m"
  "dataCallback (log_op e lvl msg m) = dataCallback m"
  "cachedDataEnabled (log_op e lvl msg m) = cachedDataEnabled m"
  "mockData (log_op e lvl msg m) = mockData m"
  by (simp_all add: log_op_def Let_def)

lemma cacheData_other [simp]:
  "lastKnownData (cacheData e d m) = lastKnownData m"
  "delivered (cacheData e d m) = delivered m"
  "dataCallback (cacheData e d m) = dataCallback m"
  "mockData (cacheData e d m) = mockData m"
  by (simp_all add: cacheData_def split: option.splits)

lemma call_dataCallback_other [simp]:
  "lastKnownData (call_dataCallback p m) = lastKnownData m"
  "debugLogs (call_dataCallback p m) = debugLogs m"
  "mockData (call_dataCallback p m) = mockData m"
  by (simp_all add: call_dataCallback_def)

lemma last_log_op:
  "last (debugLogs (log_op e lvl msg m)) = \<lparr>timestamp = now e, level = lvl, message = msg\<rparr>"
  by (simp add: log_op_logs slice_last_def)

lemma parse_success:
  assumes "decode buf = Inr d"
  shows "lastKnownData (parseIncomingData e buf m) = Some (add_trip_data e d)"
    and "delivered (parseIncomingData e buf m) =
         (if dataCallback m then delivered m @ [Telemetry (add_trip_data e d)] else delivered m)"
  using assms
  by (simp_all add: parseIncomingData_def try_parse_def Let_def call_dataCallback_delivered)

lemma parse_failure:
  assumes "decode buf = Inl err"
  shows "parseIncomingData e buf m =
         call_dataCallback (Telemetry fallbackData)
           (log_op e ''ERROR'' (Text (''Data parsing failed: '' @ err))
              (log_op e ''INFO'' (Text (''Received BLE data: '' @ toHex buf)) m))"
proof -
  have "length buf = 10" using assms decode_raises_iff [of buf] by blast
  then show ?thesis using assms
    by (simp add: parseIncomingData_def try_parse_def Let_def)
qed

lemma add_trip_data_fields [simp]:
  "speed (add_trip_data e d) = speed d" "gear (add_trip_data e d) = gear d"
  "rpm (add_trip_data e d) = rpm d" "fuel (add_trip_data e d) = fuel d"
  "ridingMode (add_trip_data e d) = ridingMode d"
  "highBeam (add_trip_data e d) = highBeam d" "hazard (add_trip_data e d) = hazard d"
  "engineCheck (add_trip_data e d) = engineCheck d" "battery (add_trip_data e d) = battery d"
  "odometer (add_trip_data e d) = odometer d"
  by (simp_all add: add_trip_data_def)

text \<open>
  Claim C1, amended. For every buffer of at least 11 bytes \<^verbatim>\<open>parseIncomingData\<close>
  stores and delivers a record whose fields depend on the bytes alone: speed is byte 0,
  gear is byte 1 with 0 replaced by 1, rpm is ten times the big-endian value of bytes 2-3,
  fuel is byte 4, the riding mode is indexed by byte 5 modulo 3, the four flags are bits
  0-3 of byte 6, and the odometer is the decimal string of the big-endian value of bytes
  7-10.
\<close>

theorem full_decode_field_mapping:
  assumes "11 \<le> length buf"
  shows "\<exists>t. lastKnownData (parseIncomingData e buf m) = Some t
     \<and> (dataCallback m \<longrightarrow> delivered (parseIncomingData e buf m) = delivered m @ [Telemetry t])
     \<and> speed t = Num (real (unat (buf ! 0)))
     \<and> gear t = Num (real (if buf ! 1 = 0 then 1 else unat (buf ! 1)))
     \<and> rpm t = real ((unat (buf ! 2) * 256 + unat (buf ! 3)) * 10)
     \<and> fuel t = real (unat (buf ! 4))
     \<and> ridingMode t = [''Road'', ''Rain'', ''Off-Road''] ! (unat (buf ! 5) mod 3)
     \<and> highBeam t = bit (buf ! 6) 0 \<and> hazard t = bit (buf ! 6) 1
     \<and> engineCheck t = bit (buf ! 6) 2 \<and> battery t = bit (buf ! 6) 3
     \<and> odometer t = show_nat (unat (buf ! 7) * 16777216
                        + (unat (buf ! 8) * 65536 + unat (buf ! 9) * 256 + unat (buf ! 10)))"
proof -
  define d where "d = \<lparr>speed = Num (real (unat (buf ! 0))),
          gear = Num (real (if buf ! 1 = 0 then 1 else unat (buf ! 1))),
          rpm = real ((unat (buf ! 2) * 256 + unat (buf ! 3)) * 10),
          fuel = real (unat (buf ! 4)),
          ridingMode = [''Road'', ''Rain'', ''Off-Road''] ! (unat (buf ! 5) mod 3),
          highBeam = bit (buf ! 6) 0, hazard = bit (buf ! 6) 1,
          engineCheck = bit (buf ! 6) 2, battery = bit (buf ! 6) 3,
          odometer = show_nat (unat (buf ! 7) * 16777216
                       + (unat (buf ! 8) * 65536 + unat (buf ! 9) * 256 + unat (buf ! 10)))\<rparr>"
  have d: "strategy1 buf = Inr d"
    unfolding d_def by (rule strategy1_value [OF assms])
  have f: "speed d = Num (real (unat (buf ! 0)))"
      "gear d = Num (real (if buf ! 1 = 0 then 1 else unat (buf ! 1)))"
      "rpm d = real ((unat (buf ! 2) * 256 + unat (buf ! 3)) * 10)"
      "fuel d = real (unat (buf ! 4))"
      "ridingMode d = [''Road'', ''Rain'', ''Off-Road''] ! (unat (buf ! 5) mod 3)"
      "highBeam d = bit (buf ! 6) 0" "hazard d = bit (buf ! 6) 1"
      "engineCheck d = bit (buf ! 6) 2" "battery d = bit (buf ! 6) 3"
      "odometer d = show_nat (unat (buf ! 7) * 16777216
                        + (unat (buf ! 8) * 65536 + unat (buf ! 9) * 256 + unat (buf ! 10)))"
    by (simp_all add: d_def)
  from assms d have dec: "decode buf = Inr d" by (simp add: decode_def)
  show ?thesis
    apply (rule exI [of _ "add_trip_data e d"])
    apply (simp only: parse_success [OF dec] add_trip_data_fields f)
    apply simp
    done
qed

theorem full_decode_field_mapping_witness:
  "\<exists>t. lastKnownData (parseIncomingData example_env example_frame example_manager) = Some t
     \<and> delivered (parseIncomingData example_env example_frame example_manager) = [Telemetry t]
     \<and> speed t = Num 45 \<and> gear t = Num 3 \<and> rpm t = 6000 \<and> fuel t = 60
     \<and> ridingMode t = ''Road'' \<and> highBeam t \<and> \<not> hazard t \<and> engineCheck t \<and> \<not> battery t
     \<and> odometer t = ''100''"
proof -
  have h: "11 \<le> length example_frame" by (simp add: example_frame_def)
  have c: "dataCallback example_manager" "delivered example_manager = []"
    by (simp_all add: example_manager_def setDataCallback_def constructor_def)
  have s: "show_nat 100 = ''100''" by (simp add: show_nat.simps digit_char_def)
  show ?thesis
    using full_decode_field_mapping [OF h, of example_env example_manager] c
    by (simp add: example_frame_def s bit_numeral_simps)
qed

lemma example_manager_fields:
  "dataCallback example_manager" "delivered example_manager = []"
  "lastKnownData example_manager = None" "debugLogs example_manager = []"
  by (simp_all add: example_manager_def setDataCallback_def constructor_def)

lemma show_nat_small:
  "show_nat 0 = ''0''" "show_nat 100 = ''100''" "show_nat 200 = ''200''"
  "show_nat 15 = ''15''" "show_nat 14 = ''14''"
  by (simp_all add: show_nat.simps digit_char_def)

lemma example_trip_data:
  "add_trip_data example_env d =
     \<lparr>speed = speed d, gear = gear d, rpm = rpm d, fuel = fuel d, ridingMode = ridingMode d,
      highBeam = highBeam d, hazard = hazard d, engineCheck = engineCheck d,
      battery = battery d, odometer = odometer d,
      tripA = ''100.0'', tripB = ''200.0'', afe = ''15.0'', bfe = ''14.0''\<rparr>"
  by (simp add: add_trip_data_def example_env_def toFixed1_def show_nat_small)

text \<open>
  The claim as first stated fails twice: a frame of exactly 10 bytes passes the length
  test of the full strategy, the 32-bit read at offset 7 throws, and the sentinel record is
  delivered; and a gear byte of 0 is reported as gear 1.
\<close>

theorem full_decode_counterexample:
  "decode [45, 3, 0x02, 0x58, 60, 0, 0x05, 0, 0, 0] = Inl rangeError
   \<and> delivered (parseIncomingData example_env [45, 3, 0x02, 0x58, 60, 0, 0x05, 0, 0, 0] example_manager)
       = [Telemetry fallbackData]
   \<and> speed fallbackData = Str ''--''
   \<and> map_option gear (lastKnownData
         (parseIncomingData example_env [45, 0, 0x02, 0x58, 60, 0, 0x05, 0, 0, 0, 100] example_manager))
       = Some (Num 1)"
proof -
  have a: "decode [45, 3, 0x02, 0x58, 60, 0, 0x05, 0, 0, 0] = Inl rangeError"
    using strategy1_length10 [of "[45, 3, 0x02, 0x58, 60, 0, 0x05, 0, 0, 0]"]
    by (simp add: decode_def)
  have b: "delivered (parseIncomingData example_env [45, 3, 0x02, 0x58, 60, 0, 0x05, 0, 0, 0] example_manager)
       = [Telemetry fallbackData]"
    by (simp add: parse_failure [OF a] call_dataCallback_delivered example_manager_fields)
  have c: "decode [45, 0, 0x02, 0x58, 60, 0, 0x05, 0, 0, 0, 100] =
     Inr \<lparr>speed = Num 45, gear = Num 1, rpm = 6000, fuel = 60, ridingMode = ''Road'',
          highBeam = True, hazard = False, engineCheck = True, battery = False,
          odometer = ''100''\<rparr>"
    using strategy1_value [of "[45, 0, 0x02, 0x58, 60, 0, 0x05, 0, 0, 0, 100]"]
    by (simp add: decode_def show_nat_small)
  have d: "map_option gear (lastKnownData
         (parseIncomingData example_env [45, 0, 0x02, 0x58, 60, 0, 0x05, 0, 0, 0, 100] example_manager))
       = Some (Num 1)"
    by (simp add: parse_success [OF c])
  show ?thesis using a b d by (simp add: fallbackData_def)
qed

text \<open>
  Claim C7, amended. For every buffer of 4 to 9 bytes the decoder produces speed = byte 0,
  gear = byte 1 raised to at least 1, rpm = 50 times the big-endian value of bytes 2-3,
  fuel = 50, riding mode Road, highBeam, hazard and engineCheck false, battery true, and
  the odometer string \<^verbatim>\<open>'00000'\<close>.
\<close>

theorem minimal_decode_field_mapping:
  assumes "4 \<le> length buf" and "length buf \<le> 9"
  shows "\<exists>t. lastKnownData (parseIncomingData e buf m) = Some t
     \<and> (dataCallback m \<longrightarrow> delivered (parseIncomingData e buf m) = delivered m @ [Telemetry t])
     \<and> speed t = Num (real (unat (buf ! 0)))
     \<and> gear t = Num (real (max 1 (unat (buf ! 1))))
     \<and> rpm t = real ((unat (buf ! 2) * 256 + unat (buf ! 3)) * 50)
     \<and> fuel t = 50
     \<and> ridingMode t = ''Road''
     \<and> \<not> highBeam t \<and> \<not> hazard t \<and> \<not> engineCheck t \<and> battery t
     \<and> odometer t = ''00000''"
proof -
  define d where "d = \<lparr>speed = Num (real (unat (buf ! 0))),
          gear = Num (real (max 1 (unat (buf ! 1)))),
          rpm = real ((unat (buf ! 2) * 256 + unat (buf ! 3)) * 50),
          fuel = 50, ridingMode = ''Road'',
          highBeam = False, hazard = False, engineCheck = False, battery = True,
          odometer = ''00000''\<rparr>"
  have d: "strategy2 buf = Inr d"
    unfolding d_def by (rule strategy2_value [OF assms(1)])
  have f: "speed d = Num (real (unat (buf ! 0)))"
      "gear d = Num (real (max 1 (unat (buf ! 1))))"
      "rpm d = real ((unat (buf ! 2) * 256 + unat (buf ! 3)) * 50)"
      "fuel d = 50" "ridingMode d = ''Road''"
      "highBeam d = False" "hazard d = False" "engineCheck d = False" "battery d = True"
      "odometer d = ''00000''"
    by (simp_all add: d_def)
  from assms d have dec: "decode buf = Inr d" by (simp add: decode_def)
  show ?thesis
    apply (rule exI [of _ "add_trip_data e d"])
    apply (simp only: parse_success [OF dec] add_trip_data_fields f)
    apply simp
    done
qed

theorem minimal_decode_field_mapping_witness:
  "\<exists>t. lastKnownData (parseIncomingData example_env short_frame example_manager) = Some t
     \<and> delivered (parseIncomingData example_env short_frame example_manager) = [Telemetry t]
     \<and> speed t = Num 45 \<and> gear t = Num 3 \<and> rpm t = 30000 \<and> fuel t = 50
     \<and> ridingMode t = ''Road'' \<and> \<not> highBeam t \<and> \<not> hazard t \<and> \<not> engineCheck t \<and> battery t
     \<and> odometer t = ''00000''"
proof -
  have h: "4 \<le> length short_frame" "length short_frame \<le> 9" by (simp_all add: short_frame_def)
  show ?thesis
    using minimal_decode_field_mapping [OF h, of example_env example_manager] example_manager_fields
    by (simp add: short_frame_def)
qed

theorem minimal_decode_counterexample:
  "decode short_frame =
     Inr \<lparr>speed = Num 45, gear = Num 3, rpm = 30000, fuel = 50, ridingMode = ''Road'',
          highBeam = False, hazard = False, engineCheck = False, battery = True,
          odometer = ''00000''\<rparr>
   \<and> map_option battery (lastKnownData (parseIncomingData example_env short_frame example_manager))
       = Some True
   \<and> map_option odometer (lastKnownData (parseIncomingData example_env short_frame example_manager))
       = Some ''00000''"
proof -
  have a: "decode short_frame =
     Inr \<lparr>speed = Num 45, gear = Num 3, rpm = 30000, fuel = 50, ridingMode = ''Road'',
          highBeam = False, hazard = False, engineCheck = False, battery = True,
          odometer = ''00000''\<rparr>"
    using strategy2_value [of short_frame] by (simp add: decode_def short_frame_def)
  show ?thesis by (simp add: a parse_success [OF a])
qed

lemma decode_total_except_10: "length buf \<noteq> 10 \<Longrightarrow> \<exists>d. decode buf = Inr d"
  using decode_raises_iff [of buf] by (cases "decode buf") auto

lemma decode_gear:
  assumes "decode buf = Inr d"
  shows "\<exists>g. gear d = Num g \<and> 1 \<le> g"
    and "length buf < 4 \<or> buf ! 1 = 0 \<Longrightarrow> gear d = Num 1"
proof -
  have n10: "length buf \<noteq> 10" using assms decode_raises_iff [of buf] by auto
  consider "11 \<le> length buf" | "4 \<le> length buf" "length buf \<le> 9" | "length buf < 4"
    using n10 by linarith
  then have "(\<exists>g. gear d = Num g \<and> 1 \<le> g) \<and> (length buf < 4 \<or> buf ! 1 = 0 \<longrightarrow> gear d = Num 1)"
  proof cases
    case 1
    then show ?thesis using assms strategy1_value [OF 1] by (auto simp: decode_def Suc_le_eq unat_gt_0)
  next
    case 2
    then show ?thesis using assms strategy2_value [OF 2(1)] by (auto simp: decode_def)
  next
    case 3
    then show ?thesis using assms strategy3_value [of buf] by (auto simp: decode_def)
  qed
  then show "\<exists>g. gear d = Num g \<and> 1 \<le> g"
    and "length buf < 4 \<or> buf ! 1 = 0 \<Longrightarrow> gear d = Num 1" by blast+
qed

text \<open>
  Claim C10. Every record a decoding strategy produces has a numeric gear of at least 1,
  and that record is the one stored as last known data and handed to the data callback;
  a gear byte of 0 and every frame shorter than 4 bytes give gear 1. Every frame whose
  length is not 10 is decoded by one of the strategies.
\<close>

theorem decoded_gear_at_least_one:
  "(decode buf = Inr d \<longrightarrow>
      (\<exists>g. gear d = Num g \<and> 1 \<le> g)
      \<and> (length buf < 4 \<or> buf ! 1 = 0 \<longrightarrow> gear d = Num 1)
      \<and> lastKnownData (parseIncomingData e buf m) = Some (add_trip_data e d)
      \<and> gear (add_trip_data e d) = gear d
      \<and> (dataCallback m \<longrightarrow>
           delivered (parseIncomingData e buf m) = delivered m @ [Telemetry (add_trip_data e d)]))
   \<and> (length buf \<noteq> 10 \<longrightarrow> (\<exists>d'. decode buf = Inr d'))"
  using decode_gear [of buf d] parse_success [of buf d e m] decode_total_except_10 [of buf]
  by simp

theorem decoded_gear_at_least_one_witness:
  "decode zero_gear_frame =
     Inr \<lparr>speed = Num 7, gear = Num 1, rpm = 0, fuel = 50, ridingMode = ''Road'',
          highBeam = False, hazard = False, engineCheck = False, battery = True,
          odometer = ''00000''\<rparr>
   \<and> map_option gear (lastKnownData (parseIncomingData example_env zero_gear_frame example_manager))
       = Some (Num 1)
   \<and> length (delivered (parseIncomingData example_env zero_gear_frame example_manager)) = 1"
proof -
  have a: "decode zero_gear_frame =
     Inr \<lparr>speed = Num 7, gear = Num 1, rpm = 0, fuel = 50, ridingMode = ''Road'',
          highBeam = False, hazard = False, engineCheck = False, battery = True,
          odometer = ''00000''\<rparr>"
    by (simp add: decode_def zero_gear_frame_def strategy2_def readUInt8_def readUInt16BE_def
        bind_def or_num_def)
  show ?thesis
    using decoded_gear_at_least_one [of zero_gear_frame _ example_env example_manager] a
      example_manager_fields
    by simp
qed

text \<open>
  Claim C5, amended. The empty buffer takes the basic strategy: the record delivered has
  speed 0, gear 1, rpm 0, fuel 0 and odometer \<^verbatim>\<open>'--'\<close>. For every buffer whose
  decoding throws, the sentinel record is delivered, the failure is the last log entry, at
  level ERROR, the last known data is left as it was, and the handler returns. In the
  sentinel record speed, gear, odometer and the trip fields are \<^verbatim>\<open>'--'\<close> while rpm
  and fuel are 0.
\<close>

theorem parse_failure_handling:
  "lastKnownData (parseIncomingData e [] m) =
      Some (add_trip_data e
        \<lparr>speed = Num 0, gear = Num 1, rpm = 0, fuel = 0, ridingMode = ''Road'',
         highBeam = False, hazard = False, engineCheck = False, battery = False,
         odometer = ''--''\<rparr>)
   \<and> (dataCallback m \<longrightarrow> delivered (parseIncomingData e [] m) = delivered m @
        [Telemetry (add_trip_data e
          \<lparr>speed = Num 0, gear = Num 1, rpm = 0, fuel = 0, ridingMode = ''Road'',
           highBeam = False, hazard = False, engineCheck = False, battery = False,
           odometer = ''--''\<rparr>)])
   \<and> (decode buf = Inl err \<longrightarrow>
        (dataCallback m \<longrightarrow>
           delivered (parseIncomingData e buf m) = delivered m @ [Telemetry fallbackData])
        \<and> last (debugLogs (parseIncomingData e buf m)) =
            \<lparr>timestamp = now e, level = ''ERROR'',
             message = Text (''Data parsing failed: '' @ err)\<rparr>
        \<and> lastKnownData (parseIncomingData e buf m) = lastKnownData m)
   \<and> fallbackData =
        \<lparr>speed = Str ''--'', gear = Str ''--'', rpm = 0, fuel = 0, ridingMode = ''Road'',
         highBeam = False, hazard = False, engineCheck = False, battery = False,
         odometer = ''--'', tripA = ''--'', tripB = ''--'', afe = ''--'', bfe = ''--''\<rparr>"
proof -
  have e: "decode [] = Inr \<lparr>speed = Num 0, gear = Num 1, rpm = 0, fuel = 0, ridingMode = ''Road'',
         highBeam = False, hazard = False, engineCheck = False, battery = False,
         odometer = ''--''\<rparr>"
    using strategy3_value [of "[]"] by (simp add: decode_def)
  have f: "decode buf = Inl err \<Longrightarrow>
        (dataCallback m \<longrightarrow>
           delivered (parseIncomingData e buf m) = delivered m @ [Telemetry fallbackData])
        \<and> last (debugLogs (parseIncomingData e buf m)) =
            \<lparr>timestamp = now e, level = ''ERROR'',
             message = Text (''Data parsing failed: '' @ err)\<rparr>
        \<and> lastKnownData (parseIncomingData e buf m) = lastKnownData m"
    by (simp add: parse_failure call_dataCallback_delivered last_log_op)
  show ?thesis
    using f by (simp add: parse_success [OF e] fallbackData_def)
qed

theorem parse_failure_handling_witness:
  "delivered (parseIncomingData example_env truncated_frame example_manager) = [Telemetry fallbackData]
   \<and> last (debugLogs (parseIncomingData example_env truncated_frame example_manager)) =
        \<lparr>timestamp = 0, level = ''ERROR'',
         message = Text ''Data parsing failed: Trying to access beyond buffer length''\<rparr>
   \<and> lastKnownData (parseIncomingData example_env truncated_frame example_manager) = None"
proof -
  have a: "decode truncated_frame = Inl rangeError"
    using strategy1_length10 [of truncated_frame] by (simp add: decode_def truncated_frame_def)
  show ?thesis
    using parse_failure_handling [of example_env example_manager truncated_frame rangeError] a
      example_manager_fields
    by (simp add: rangeError_def example_env_def)
qed

theorem parse_failure_counterexample:
  "delivered (parseIncomingData example_env [] example_manager) =
     [Telemetry \<lparr>speed = Num 0, gear = Num 1, rpm = 0, fuel = 0, ridingMode = ''Road'',
         highBeam = False, hazard = False, engineCheck = False, battery = False,
         odometer = ''--'', tripA = ''100.0'', tripB = ''200.0'', afe = ''15.0'', bfe = ''14.0''\<rparr>]
   \<and> delivered (parseIncomingData example_env truncated_frame example_manager) = [Telemetry fallbackData]
   \<and> rpm fallbackData = 0 \<and> fuel fallbackData = 0"
proof -
  have e: "decode [] = Inr \<lparr>speed = Num 0, gear = Num 1, rpm = 0, fuel = 0, ridingMode = ''Road'',
         highBeam = False, hazard = False, engineCheck = False, battery = False,
         odometer = ''--''\<rparr>"
    using strategy3_value [of "[]"] by (simp add: decode_def)
  have a: "decode truncated_frame = Inl rangeError"
    using strategy1_length10 [of truncated_frame] by (simp add: decode_def truncated_frame_def)
  show ?thesis
    by (simp add: parse_success [OF e] parse_failure [OF a] call_dataCallback_delivered
        example_manager_fields example_trip_data fallbackData_def)
qed

section \<open>The synthetic generator\<close>

lemma mock_tick_mockData:
  "mockData (mock_tick e m) = step_gear e (step_fuel e (step_rpm e (step_speed e (mockData m, 0))))"
  by (simp add: mock_tick_def Let_def)

lemma step_speed_fields:
  "mock_gear (fst (step_speed e (d, k))) = mock_gear d"
  "mock_rpm (fst (step_speed e (d, k))) = mock_rpm d"
  "mock_speed d = 0 \<Longrightarrow> mock_speed (fst (step_speed e (d, k))) = 0"
  by (simp_all add: step_speed_def)

lemma step_rpm_fields:
  "mock_gear (fst (step_rpm e dk)) = mock_gear (fst dk)"
  "mock_speed (fst (step_rpm e dk)) = mock_speed (fst dk)"
  "mock_rpm (fst dk) = 0 \<Longrightarrow> mock_rpm (fst (step_rpm e dk)) = 0"
  by (cases dk; simp add: step_rpm_def)+

lemma step_fuel_fields:
  "mock_gear (fst (step_fuel e dk)) = mock_gear (fst dk)"
  "mock_speed (fst (step_fuel e dk)) = mock_speed (fst dk)"
  "mock_rpm (fst (step_fuel e dk)) = mock_rpm (fst dk)"
  by (cases dk; simp add: step_fuel_def)+

lemma step_gear_fields:
  "mock_speed (step_gear e dk) = mock_speed (fst dk)"
  "mock_rpm (step_gear e dk) = mock_rpm (fst dk)"
  by (cases dk; simp add: step_gear_def)+

lemma step_gear_gear:
  assumes "1 \<le> mock_gear (fst dk)" and "mock_gear (fst dk) \<le> 6"
  shows "1 \<le> mock_gear (step_gear e dk)" and "mock_gear (step_gear e dk) \<le> 6"
    and "mock_gear (step_gear e dk) \<noteq> mock_gear (fst dk) \<Longrightarrow>
           (mock_gear (step_gear e dk) = mock_gear (fst dk) + 1
            \<or> mock_gear (step_gear e dk) = mock_gear (fst dk) - 1)
           \<and> mock_speed (step_gear e dk) > 10"
  using assms by (cases dk; auto simp: step_gear_def split: if_splits)+

lemma mock_tick_speed_zero:
  "mock_speed (mockData m) = 0 \<Longrightarrow> mock_speed (mockData (mock_tick e m)) = 0"
  by (simp add: mock_tick_mockData step_gear_fields step_fuel_fields step_rpm_fields step_speed_fields)

lemma mock_tick_rpm_zero:
  "mock_rpm (mockData m) = 0 \<Longrightarrow> mock_rpm (mockData (mock_tick e m)) = 0"
  by (simp add: mock_tick_mockData step_gear_fields step_fuel_fields step_rpm_fields step_speed_fields)

lemma mock_tick_gear:
  assumes "1 \<le> mock_gear (mockData m)" and "mock_gear (mockData m) \<le> 6"
  shows "1 \<le> mock_gear (mockData (mock_tick e m))"
    and "mock_gear (mockData (mock_tick e m)) \<le> 6"
    and "mock_gear (mockData (mock_tick e m)) \<noteq> mock_gear (mockData m) \<Longrightarrow>
           (mock_gear (mockData (mock_tick e m)) = mock_gear (mockData m) + 1
            \<or> mock_gear (mockData (mock_tick e m)) = mock_gear (mockData m) - 1)
           \<and> mock_speed (mockData (mock_tick e m)) > 10"
proof -
  let ?dk = "step_fuel e (step_rpm e (step_speed e (mockData m, 0)))"
  have g: "mock_gear (fst ?dk) = mock_gear (mockData m)"
    by (simp add: step_fuel_fields step_rpm_fields step_speed_fields)
  show "1 \<le> mock_gear (mockData (mock_tick e m))"
    and "mock_gear (mockData (mock_tick e m)) \<le> 6"
    and "mock_gear (mockData (mock_tick e m)) \<noteq> mock_gear (mockData m) \<Longrightarrow>
           (mock_gear (mockData (mock_tick e m)) = mock_gear (mockData m) + 1
            \<or> mock_gear (mockData (mock_tick e m)) = mock_gear (mockData m) - 1)
           \<and> mock_speed (mockData (mock_tick e m)) > 10"
    using step_gear_gear [of ?dk e] assms unfolding g mock_tick_mockData by blast+
qed

lemma mock_run_gear:
  "1 \<le> mock_gear (mockData m) \<Longrightarrow> mock_gear (mockData m) \<le> 6 \<Longrightarrow>
   1 \<le> mock_gear (mockData (mock_run es m)) \<and> mock_gear (mockData (mock_run es m)) \<le> 6"
  by (induction es arbitrary: m) (simp_all add: mock_tick_gear)

text \<open>
  Claim C9. On every tick, a speed of 0 stays 0 and an rpm of 0 stays 0. A gear within
  1..6 stays within 1..6, and when it changes it changes by exactly one step and the speed
  of that tick (after its own perturbation) exceeds 10. Starting from the \<open>mockData\<close> of
  the constructor, after any number of ticks the gear is within 1..6 and speed and rpm
  are still 0.
\<close>

theorem mock_tick_invariants:
  "(mock_speed (mockData m) = 0 \<longrightarrow> mock_speed (mockData (mock_tick e m)) = 0)
   \<and> (mock_rpm (mockData m) = 0 \<longrightarrow> mock_rpm (mockData (mock_tick e m)) = 0)
   \<and> (1 \<le> mock_gear (mockData m) \<and> mock_gear (mockData m) \<le> 6 \<longrightarrow>
        1 \<le> mock_gear (mockData (mock_tick e m)) \<and> mock_gear (mockData (mock_tick e m)) \<le> 6
        \<and> (mock_gear (mockData (mock_tick e m)) \<noteq> mock_gear (mockData m) \<longrightarrow>
             (mock_gear (mockData (mock_tick e m)) = mock_gear (mockData m) + 1
              \<or> mock_gear (mockData (mock_tick e m)) = mock_gear (mockData m) - 1)
             \<and> mock_speed (mockData (mock_tick e m)) > 10))
   \<and> (mockData m = initial_mockData \<longrightarrow>
        1 \<le> mock_gear (mockData (mock_run es m)) \<and> mock_gear (mockData (mock_run es m)) \<le> 6
        \<and> mock_speed (mockData (mock_run es m)) = 0 \<and> mock_rpm (mockData (mock_run es m)) = 0)"
proof -
  have run0: "mock_speed (mockData m') = 0 \<and> mock_rpm (mockData m') = 0 \<Longrightarrow>
      mock_speed (mockData (mock_run es m')) = 0 \<and> mock_rpm (mockData (mock_run es m')) = 0" for m'
    by (induction es arbitrary: m') (simp_all add: mock_tick_speed_zero mock_tick_rpm_zero)
  have init: "mockData m = initial_mockData \<Longrightarrow>
      1 \<le> mock_gear (mockData m) \<and> mock_gear (mockData m) \<le> 6
      \<and> mock_speed (mockData m) = 0 \<and> mock_rpm (mockData m) = 0"
    by (simp add: initial_mockData_def)
  show ?thesis
    using mock_tick_speed_zero [of m e] mock_tick_rpm_zero [of m e] mock_tick_gear [of m e]
      mock_run_gear [of m es] run0 [of m] init
    by blast
qed

theorem mock_tick_invariants_witness:
  "mock_gear (mockData (mock_tick shifting_env riding_manager)) = 4
   \<and> mock_speed (mockData (mock_tick shifting_env riding_manager)) > 10
   \<and> mock_speed (mockData (mock_tick example_env example_manager)) = 0
   \<and> mock_rpm (mockData (mock_tick example_env example_manager)) = 0
   \<and> mock_gear (mockData (mock_run [example_env, shifting_env] example_manager)) \<le> 6"
proof -
  have a: "mock_gear (mockData riding_manager) = 3"
    by (simp add: riding_manager_def)
  have b: "mock_gear (mockData (mock_tick shifting_env riding_manager)) = 4"
    by (simp add: mock_tick_mockData step_gear_def step_fuel_def step_rpm_def step_speed_def
        riding_manager_def shifting_env_def example_env_def initial_mockData_def)
  have c: "mockData example_manager = initial_mockData"
    by (simp add: example_manager_def setDataCallback_def constructor_def)
  have d: "mock_speed initial_mockData = 0" "mock_rpm initial_mockData = 0"
    by (simp_all add: initial_mockData_def)
  show ?thesis
    using mock_tick_invariants [of riding_manager shifting_env "[]"]
      mock_tick_invariants [of example_manager example_env "[example_env, shifting_env]"] a b c d
    by simp
qed

section \<open>The telemetry cache\<close>

lemma getCachedData_after_save:
  assumes "saveCachedData None T d st = (ok, st')" and "T \<noteq> 0"
  shows "ok"
    and "T' - T < 3600000 \<Longrightarrow>
           getCachedData None T' st' = Some \<lparr>item_data = d, item_timestamp = Some T\<rparr>"
    and "3600000 \<le> T' - T \<Longrightarrow> getCachedData io T' st' = None"
  using assms
  by (auto simp: saveCachedData_def setItem_def getCachedData_def getItem_def Let_def
      split: option.splits)

text \<open>
  Claim C3. A record saved by \<^verbatim>\<open>saveCachedData\<close> at clock reading \<open>T\<close> is returned by
  \<^verbatim>\<open>getCachedData\<close>, with its timestamp, at every clock reading \<open>T'\<close> with
  \<open>T' - T\<close> below one hour, and nothing is returned once \<open>T' - T\<close> is one hour or more;
  so at \<open>T\<close> + 59 min the record is returned and at \<open>T\<close> + 61 min it is not. The save
  and the read are ones that \<^verbatim>\<open>AsyncStorage\<close> does not reject, and \<open>T\<close> is a clock
  reading other than 0, the epoch instant itself, which the test
  \<^verbatim>\<open>data.timestamp\<close> takes for a missing timestamp.
\<close>

theorem cache_ttl_one_hour:
  assumes "saveCachedData None T d st = (ok, st')" and "T \<noteq> 0"
  shows "ok
     \<and> (T' - T < 60 * 60 * 1000 \<longrightarrow>
          getCachedData None T' st' = Some \<lparr>item_data = d, item_timestamp = Some T\<rparr>)
     \<and> (60 * 60 * 1000 \<le> T' - T \<longrightarrow> getCachedData io T' st' = None)
     \<and> getCachedData None (T + 59 * 60 * 1000) st' = Some \<lparr>item_data = d, item_timestamp = Some T\<rparr>
     \<and> getCachedData io (T + 61 * 60 * 1000) st' = None"
  using getCachedData_after_save(1) [OF assms]
    getCachedData_after_save(2) [OF assms, of T']
    getCachedData_after_save(3) [OF assms, of T' io]
    getCachedData_after_save(2) [OF assms, of "T + 59 * 60 * 1000"]
    getCachedData_after_save(3) [OF assms, of "T + 61 * 60 * 1000" io]
  by simp

theorem cache_ttl_one_hour_witness:
  "getCachedData None (example_time + 59 * 60 * 1000)
       (snd (saveCachedData None example_time fallbackData Map.empty))
     = Some \<lparr>item_data = fallbackData, item_timestamp = Some example_time\<rparr>
   \<and> getCachedData None (example_time + 61 * 60 * 1000)
       (snd (saveCachedData None example_time fallbackData Map.empty)) = None"
proof -
  have a: "saveCachedData None example_time fallbackData Map.empty
             = (True, snd (saveCachedData None example_time fallbackData Map.empty))"
    by (simp add: saveCachedData_def setItem_def)
  have b: "example_time \<noteq> 0" by (simp add: example_time_def)
  show ?thesis
    using cache_ttl_one_hour [OF a b, of 0 None] by simp
qed

section \<open>Initialisation\<close>

lemma slice_last_keeps:
  "length ys \<le> n \<Longrightarrow> slice_last n (xs @ ys) = slice_last (n - length ys) xs @ ys"
  by (simp add: slice_last_def)

lemma slice_last_slice_last: "j \<le> n \<Longrightarrow> slice_last j (slice_last n xs) = slice_last j xs"
proof -
  assume "j \<le> n"
  then have "length xs - (length xs - n + j) + (length xs - n) = length xs - j" by arith
  then show ?thesis by (simp add: slice_last_def)
qed

lemma slice_last_mono: "x \<in> set (slice_last j xs) \<Longrightarrow> j \<le> k \<Longrightarrow> x \<in> set (slice_last k xs)"
  unfolding slice_last_def by (meson diff_le_mono2 set_drop_subset_set_drop subsetD)

lemma slice_last_member: "x \<in> set (slice_last j xs) \<Longrightarrow> x \<in> set xs"
  unfolding slice_last_def by (meson in_set_dropD)

text \<open>An entry among the last \<open>j\<close> is among the last \<open>j + 1\<close> after one more append.\<close>

lemma log_op_keeps:
  assumes "x \<in> set (slice_last j (debugLogs m))" and "j < 500"
  shows "x \<in> set (slice_last (Suc j) (debugLogs (log_op e lvl msg m)))"
  using assms by (simp add: log_op_logs slice_last_slice_last slice_last_keeps)

lemma log_op_newest:
  "\<lparr>timestamp = now e, level = lvl, message = msg\<rparr>
     \<in> set (slice_last (Suc j) (debugLogs (log_op e lvl msg m)))"
proof (cases "j < 500")
  case True
  then show ?thesis by (simp add: log_op_logs slice_last_slice_last slice_last_keeps)
next
  case False
  have "\<lparr>timestamp = now e, level = lvl, message = msg\<rparr>
     \<in> set (slice_last 1 (debugLogs (log_op e lvl msg m)))"
    by (simp add: log_op_logs slice_last_slice_last slice_last_keeps)
  then show ?thesis by (rule slice_last_mono) simp
qed

lemma log_op_other2 [simp]:
  "customSettings (log_op e lvl msg m) = customSettings m"
  "stored_cached_data (log_op e lvl msg m) = stored_cached_data m"
  "stored_custom_settings (log_op e lvl msg m) = stored_custom_settings m"
  "mockDataEnabled (log_op e lvl msg m) = mockDataEnabled m"
  "monitored (log_op e lvl msg m) = monitored m"
  "notified (log_op e lvl msg m) = notified m"
  "connectionCallback (log_op e lvl msg m) = connectionCallback m"
  "written (log_op e lvl msg m) = written m"
  by (simp_all add: log_op_def Let_def)

lemma requestPermissions_other [simp]:
  "customSettings (requestPermissions e m) = customSettings m"
  "stored_cached_data (requestPermissions e m) = stored_cached_data m"
  "stored_custom_settings (requestPermissions e m) = stored_custom_settings m"
  "lastKnownData (requestPermissions e m) = lastKnownData m"
  by (simp_all add: requestPermissions_def Let_def split: sum.splits)

lemma loadCachedSettings_loads:
  "cached_read_error e = None \<Longrightarrow> stored_cached_data m = Some t \<Longrightarrow>
     lastKnownData (loadCachedSettings e m) = Some t"
  "cached_read_error e = None \<Longrightarrow> settings_read_error e = None \<Longrightarrow>
     stored_custom_settings m = Some c \<Longrightarrow> customSettings (loadCachedSettings e m) = c"
  by (simp_all add: loadCachedSettings_def Let_def split: option.splits)

lemma initialize_loads:
  "cached_read_error e = None \<Longrightarrow> stored_cached_data m = Some t \<Longrightarrow>
     lastKnownData (snd (initialize e m)) = Some t"
  "cached_read_error e = None \<Longrightarrow> settings_read_error e = None \<Longrightarrow>
     stored_custom_settings m = Some c \<Longrightarrow> customSettings (snd (initialize e m)) = c"
  by (simp_all add: initialize_def Let_def startMockDataSimulation_def loadCachedSettings_loads)

lemma requestPermissions_warns_location:
  assumes "location_request e = Inr st" and "st \<noteq> ''granted''"
  shows "\<lparr>timestamp = now e, level = ''WARN'',
            message = Text ''Location permission denied - GPS fallback unavailable''\<rparr>
           \<in> set (slice_last 3 (debugLogs (requestPermissions e m)))"
proof -
  let ?w = "\<lparr>timestamp = now e, level = ''WARN'',
            message = Text ''Location permission denied - GPS fallback unavailable''\<rparr>"
  let ?m1 = "log_op e ''WARN'' (Text ''Location permission denied - GPS fallback unavailable'') m"
  have r1: "?w \<in> set (slice_last (Suc 0) (debugLogs ?m1))" by (rule log_op_newest)
  have r2: "?w \<in> set (slice_last (Suc (Suc 0)) (debugLogs (log_op e l g ?m1)))" for l g
    by (rule log_op_keeps [OF r1]) simp
  have r3: "?w \<in> set (slice_last (Suc (Suc (Suc 0))) (debugLogs (log_op e l' g' (log_op e l g ?m1))))"
    for l g l' g'
    by (rule log_op_keeps [OF r2]) simp
  have three: "(3::nat) = Suc (Suc (Suc 0))" by simp
  show ?thesis
  proof (cases "camera_request e")
    case (Inl err)
    then show ?thesis using assms slice_last_mono [OF r2, of 3]
      by (simp add: requestPermissions_def Let_def)
  next
    case (Inr cs)
    then show ?thesis using assms slice_last_mono [OF r2, of 3] r3
      by (simp add: requestPermissions_def Let_def three)
  qed
qed

lemma requestPermissions_warns_camera:
  assumes "location_request e = Inr st" and "camera_request e = Inr cs" and "cs \<noteq> ''granted''"
  shows "\<lparr>timestamp = now e, level = ''WARN'',
            message = Text ''Camera permission denied - QR code authentication unavailable''\<rparr>
           \<in> set (slice_last 3 (debugLogs (requestPermissions e m)))"
proof -
  let ?w = "\<lparr>timestamp = now e, level = ''WARN'',
            message = Text ''Camera permission denied - QR code authentication unavailable''\<rparr>"
  have r1: "?w \<in> set (slice_last (Suc 0) (debugLogs
      (log_op e ''WARN'' (Text ''Camera permission denied - QR code authentication unavailable'') m')))" for m'
    by (rule log_op_newest)
  have r2: "?w \<in> set (slice_last (Suc (Suc 0)) (debugLogs (log_op e l g
      (log_op e ''WARN'' (Text ''Camera permission denied - QR code authentication unavailable'') m'))))" for l g m'
    by (rule log_op_keeps [OF r1]) simp
  show ?thesis
    using assms slice_last_mono [OF r2, of 3]
    by (simp add: requestPermissions_def Let_def)
qed

lemma loadCachedSettings_keeps:
  assumes "x \<in> set (slice_last 3 (debugLogs m))"
  shows "x \<in> set (slice_last 5 (debugLogs (loadCachedSettings e m)))"
proof -
  have five: "(5::nat) = Suc (Suc 3)" and four: "(4::nat) = Suc 3" by simp_all
  have u: "debugLogs (m\<lparr>lastKnownData := v\<rparr>) = debugLogs m" for v by simp
  have a0: "x \<in> set (slice_last 5 (debugLogs m))"
    by (rule slice_last_mono [OF assms]) simp
  have a1: "x \<in> set (slice_last 4 (debugLogs (log_op e l g m')))"
    if "debugLogs m' = debugLogs m" for l g m'
    unfolding four using assms that by (intro log_op_keeps) simp_all
  have a1': "x \<in> set (slice_last 5 (debugLogs (log_op e l g m')))"
    if "debugLogs m' = debugLogs m" for l g m'
    by (rule slice_last_mono [OF a1 [OF that]]) simp
  have a2: "x \<in> set (slice_last 5 (debugLogs (log_op e l' g' (m''\<lparr>customSettings := c\<rparr>))))"
    if "m'' = log_op e l g m'" "debugLogs m' = debugLogs m" for l g l' g' m' m'' c
  proof -
    have "x \<in> set (slice_last 4 (debugLogs (m''\<lparr>customSettings := c\<rparr>)))"
      using a1 [OF that(2), of l g] that(1) by simp
    then show ?thesis unfolding five four by (intro log_op_keeps) simp_all
  qed
  have a2': "x \<in> set (slice_last 5 (debugLogs (log_op e l' g' m'')))"
    if "m'' = log_op e l g m'" "debugLogs m' = debugLogs m" for l g l' g' m' m''
  proof -
    have "x \<in> set (slice_last 4 (debugLogs m''))"
      using a1 [OF that(2), of l g] that(1) by simp
    then show ?thesis unfolding five four by (intro log_op_keeps) simp_all
  qed
  show ?thesis
    using a0 a1' a2 a2'
    by (simp add: loadCachedSettings_def Let_def split: option.splits)
qed

lemma initialize_keeps:
  assumes "x \<in> set (slice_last 3 (debugLogs
             (requestPermissions e (log_op e ''INFO'' (Text ''Initializing BLE Manager'') m))))"
  shows "x \<in> set (debugLogs (snd (initialize e m)))"
proof -
  define m3 where "m3 = loadCachedSettings e
     (requestPermissions e (log_op e ''INFO'' (Text ''Initializing BLE Manager'') m))"
  define m4 where "m4 = (if mockDataEnabled m3 then startMockDataSimulation m3 else m3)"
  have eq: "snd (initialize e m) =
      log_op e ''INFO'' (Text ''BLE Manager initialized successfully'') m4"
    by (simp add: initialize_def Let_def m3_def m4_def)
  have d: "debugLogs m4 = debugLogs m3"
    by (simp add: m4_def startMockDataSimulation_def)
  have k: "x \<in> set (slice_last 5 (debugLogs m4))"
    unfolding d m3_def by (rule loadCachedSettings_keeps [OF assms])
  have "x \<in> set (slice_last (Suc 5) (debugLogs (snd (initialize e m))))"
    unfolding eq by (rule log_op_keeps [OF k]) simp
  then show ?thesis by (rule slice_last_member)
qed

text \<open>
  Claim C8, amended. \<^verbatim>\<open>initialize\<close> never rejects because a permission is denied: a
  denied location or camera permission is logged at WARN and initialisation goes on.
  Whether or not the permissions are granted, it loads the cached telemetry snapshot and
  the custom link settings that storage holds (when the items can be read) before it
  returns.
\<close>

theorem initialize_never_rejects:
  "fst (initialize e m) = None
   \<and> (cached_read_error e = None \<and> stored_cached_data m = Some t \<longrightarrow>
        lastKnownData (snd (initialize e m)) = Some t)
   \<and> (cached_read_error e = None \<and> settings_read_error e = None \<and> stored_custom_settings m = Some c \<longrightarrow>
        customSettings (snd (initialize e m)) = c)
   \<and> (location_request e = Inr st \<and> st \<noteq> ''granted'' \<longrightarrow>
        \<lparr>timestamp = now e, level = ''WARN'',
         message = Text ''Location permission denied - GPS fallback unavailable''\<rparr>
          \<in> set (debugLogs (snd (initialize e m))))
   \<and> (location_request e = Inr st \<and> camera_request e = Inr cs \<and> cs \<noteq> ''granted'' \<longrightarrow>
        \<lparr>timestamp = now e, level = ''WARN'',
         message = Text ''Camera permission denied - QR code authentication unavailable''\<rparr>
          \<in> set (debugLogs (snd (initialize e m))))"
proof (intro conjI impI)
  show "fst (initialize e m) = None" by (simp add: initialize_def Let_def)
next
  assume "cached_read_error e = None \<and> stored_cached_data m = Some t"
  then show "lastKnownData (snd (initialize e m)) = Some t"
    by (simp add: initialize_loads)
next
  assume "cached_read_error e = None \<and> settings_read_error e = None \<and> stored_custom_settings m = Some c"
  then show "customSettings (snd (initialize e m)) = c"
    by (simp add: initialize_loads)
next
  assume "location_request e = Inr st \<and> st \<noteq> ''granted''"
  then show "\<lparr>timestamp = now e, level = ''WARN'',
         message = Text ''Location permission denied - GPS fallback unavailable''\<rparr>
          \<in> set (debugLogs (snd (initialize e m)))"
    by (intro initialize_keeps requestPermissions_warns_location [of e st]) simp_all
next
  assume "location_request e = Inr st \<and> camera_request e = Inr cs \<and> cs \<noteq> ''granted''"
  then show "\<lparr>timestamp = now e, level = ''WARN'',
         message = Text ''Camera permission denied - QR code authentication unavailable''\<rparr>
          \<in> set (debugLogs (snd (initialize e m)))"
    by (intro initialize_keeps requestPermissions_warns_camera [of e st cs]) simp_all
qed

theorem initialize_never_rejects_witness:
  "fst (initialize denied_env stocked_manager) = None
   \<and> lastKnownData (snd (initialize denied_env stocked_manager)) = Some fallbackData
   \<and> customSettings (snd (initialize denied_env stocked_manager))
       = \<lparr>serviceUUID = ''fff0'', charUUID = ''fff1'', authKey = ''KEY''\<rparr>
   \<and> \<lparr>timestamp = 0, level = ''WARN'',
       message = Text ''Location permission denied - GPS fallback unavailable''\<rparr>
        \<in> set (debugLogs (snd (initialize denied_env stocked_manager)))"
  using initialize_never_rejects [of denied_env stocked_manager fallbackData
      "\<lparr>serviceUUID = ''fff0'', charUUID = ''fff1'', authKey = ''KEY''\<rparr>" "''denied''" "''denied''"]
  by (simp add: denied_env_def example_env_def stocked_manager_def constructor_def)

theorem initialize_counterexample:
  "initialize denied_env example_manager =
     (None, example_manager\<lparr>debugLogs :=
        [\<lparr>timestamp = 0, level = ''INFO'', message = Text ''Initializing BLE Manager''\<rparr>,
         \<lparr>timestamp = 0, level = ''WARN'',
          message = Text ''Location permission denied - GPS fallback unavailable''\<rparr>,
         \<lparr>timestamp = 0, level = ''WARN'',
          message = Text ''Camera permission denied - QR code authentication unavailable''\<rparr>,
         \<lparr>timestamp = 0, level = ''INFO'', message = Text ''Permissions requested''\<rparr>,
         \<lparr>timestamp = 0, level = ''INFO'', message = Text ''BLE Manager initialized successfully''\<rparr>]\<rparr>)"
  by (simp add: initialize_def requestPermissions_def loadCachedSettings_def log_op_def Let_def
      denied_env_def example_env_def example_manager_def setDataCallback_def constructor_def
      slice_last_def)

section \<open>Speed estimated from location fixes\<close>

lemma pi_ge_3: "3 \<le> pi"
proof -
  have "sin (pi / 6) \<le> pi / 6" by (rule sin_x_le_x) simp
  then show ?thesis by (simp add: sin_30)
qed

lemma distance_same_place: "calculateDistance lat lon lat lon = 0"
  by (simp add: calculateDistance_def atan2_def)

lemma distance_north:
  assumes "0 < x" and "x < 90"
  shows "calculateDistance 0 0 x 0 = 6371000 * (x * pi / 180)"
proof -
  define h where "h = x * pi / 180 / 2"
  have h0: "0 < h" using assms by (simp add: h_def)
  have "x * pi < 90 * pi" using assms by simp
  then have h1: "h < pi / 2" by (simp add: h_def)
  have s: "0 < sin h" using h0 h1 by (intro sin_gt_zero) (simp_all)
  have c: "0 < cos h" using h0 h1 by (intro cos_gt_zero) simp_all
  have a1: "sqrt (sin h * sin h) = sin h" using s by simp
  have "1 - sin h * sin h = cos h * cos h"
    using sin_cos_squared_add [of h] by (simp add: power2_eq_square algebra_simps)
  then have a2: "sqrt (1 - sin h * sin h) = cos h" using c by simp
  have t: "atan2 (sin h) (cos h) = h"
    using c h0 h1 arctan_tan [of h] by (simp add: atan2_def tan_def)
  have "calculateDistance 0 0 x 0 = 6371000 * (2 * atan2 (sqrt (sin h * sin h)) (sqrt (1 - sin h * sin h)))"
    by (simp add: calculateDistance_def Let_def h_def)
  also have "\<dots> = 6371000 * (2 * h)" by (simp only: a1 a2 t)
  also have "\<dots> = 6371000 * (x * pi / 180)" by (simp add: h_def)
  finally show ?thesis .
qed

lemma speed_same_place: "gps_speed fix_origin 1000 fix_same_place = Some 0"
  by (simp add: gps_speed_def fix_origin_def fix_same_place_def distance_same_place Let_def)

lemma speed_north: "gps_speed fix_origin 1000 fix_north = Some (70 * pi)"
proof -
  have "calculateDistance 0 0 (7 / 1000) 0 = 6371000 * (7 / 1000 * pi / 180)"
    by (rule distance_north) simp_all
  then show ?thesis
    by (simp add: gps_speed_def fix_origin_def fix_north_def Let_def)
qed

lemma speed_north_slow: "gps_speed fix_origin 1000 fix_north_slow = Some (20 * pi)"
proof -
  have "calculateDistance 0 0 (7 / 1000) 0 = 6371000 * (7 / 1000 * pi / 180)"
    by (rule distance_north) simp_all
  then show ?thesis
    by (simp add: gps_speed_def fix_origin_def fix_north_slow_def Let_def)
qed

lemma on_location_delivered:
  assumes "lastLocation w = Some l" and "lastTime w = Some t" and "t \<noteq> 0"
    and "gps_speed l t loc = Some v"
  shows "delivered (snd (on_location e loc (w, m))) =
           (if dataCallback m \<and> 0 < v \<and> v < 200
            then delivered m @ [gps_payload (lastKnownData m) v] else delivered m)"
  using assms by (simp add: on_location_def Let_def call_dataCallback_delivered)

lemma on_location_no_estimate:
  assumes "lastLocation w = None \<or> lastTime w = None \<or> lastTime w = Some 0
           \<or> (\<exists>l t. lastLocation w = Some l \<and> lastTime w = Some t \<and> gps_speed l t loc = None)"
  shows "delivered (snd (on_location e loc (w, m))) = delivered m"
  using assms by (auto simp: on_location_def Let_def split: option.splits)

text \<open>
  Claim C6, amended. For two consecutive fixes with a finite estimate \<open>v\<close> (km/h), the GPS
  fallback hands an object to the data callback if and only if a callback is set and
  \<open>0 < v < 200\<close>; the object is the last known telemetry with its speed replaced by
  \<open>v\<close> rounded. An estimate of -5 or of 350 is never delivered, an estimate of 60 is.
\<close>

theorem gps_speed_filter:
  assumes "lastLocation w = Some l" and "lastTime w = Some t" and "t \<noteq> 0"
    and "gps_speed l t loc = Some v"
  shows "delivered (snd (on_location e loc (w, m))) =
           (if dataCallback m \<and> 0 < v \<and> v < 200
            then delivered m @ [gps_payload (lastKnownData m) v] else delivered m)
     \<and> (v = - 5 \<or> v = 350 \<longrightarrow> delivered (snd (on_location e loc (w, m))) = delivered m)
     \<and> (v = 60 \<and> dataCallback m \<longrightarrow>
          delivered (snd (on_location e loc (w, m))) = delivered m @ [gps_payload (lastKnownData m) 60])
     \<and> (lastKnownData m = None \<longrightarrow> gps_payload (lastKnownData m) v = SpeedOnly (math_round v))
     \<and> (\<forall>k. lastKnownData m = Some k \<longrightarrow>
          gps_payload (lastKnownData m) v = Telemetry (k\<lparr>speed := Num (math_round v)\<rparr>))"
  using on_location_delivered [OF assms, of e m]
  by (auto simp: gps_payload_def)

theorem gps_speed_filter_witness:
  "gps_speed fix_origin 1000 fix_north_slow = Some (20 * pi)
   \<and> delivered (snd (on_location example_env fix_north_slow (watch_at_origin, example_manager)))
       = [SpeedOnly (math_round (20 * pi))]"
proof -
  have w: "lastLocation watch_at_origin = Some fix_origin" "lastTime watch_at_origin = Some 1000"
    "(1000 :: real) \<noteq> 0"
    by (simp_all add: watch_at_origin_def)
  have r: "0 < 20 * pi" "20 * pi < 200" using pi_less_4 by simp_all
  show ?thesis
    using gps_speed_filter [OF w speed_north_slow, of example_env example_manager] r
      example_manager_fields speed_north_slow
    by simp
qed

theorem gps_speed_filter_counterexample:
  "gps_speed fix_origin 1000 fix_same_place = Some 0
   \<and> delivered (snd (on_location example_env fix_same_place (watch_at_origin, example_manager))) = []
   \<and> gps_speed fix_origin 1000 fix_north = Some (70 * pi)
   \<and> 200 \<le> 70 * pi \<and> 70 * pi \<le> 300
   \<and> delivered (snd (on_location example_env fix_north (watch_at_origin, example_manager))) = []"
proof -
  have w: "lastLocation watch_at_origin = Some fix_origin" "lastTime watch_at_origin = Some 1000"
    "(1000 :: real) \<noteq> 0"
    by (simp_all add: watch_at_origin_def)
  have r: "200 \<le> 70 * pi" "70 * pi \<le> 300" using pi_ge_3 pi_less_4 by simp_all
  have a: "delivered (snd (on_location example_env fix_same_place (watch_at_origin, example_manager))) = []"
    by (simp add: on_location_delivered [OF w speed_same_place] example_manager_fields)
  have b: "delivered (snd (on_location example_env fix_north (watch_at_origin, example_manager))) = []"
    using r by (simp add: on_location_delivered [OF w speed_north] example_manager_fields)
  show ?thesis using a b r speed_same_place speed_north by simp
qed

text \<open>
  The sensor manager's tracker is the other estimator: it reports every fix to its own
  callback, with the speed set to 0 when the estimate is outside 0..300.
\<close>

lemma tracking_reports_every_fix:
  "reported (on_tracked_location clock loc sm) =
     reported sm @ [\<lparr>ld_speed = map_option math_round (estimatedSpeed sm clock loc),
          ld_latitude = latitude loc, ld_longitude = longitude loc,
          ld_accuracy = accuracy loc, ld_altitude = altitude loc, ld_heading = heading loc,
          ld_timestamp = clock\<rparr>]"
  by (simp add: on_tracked_location_def)

lemma tracking_speed_range:
  assumes "estimatedSpeed sm clock loc = Some v"
  shows "0 \<le> v \<and> v \<le> 300"
  using assms
  by (auto simp: estimatedSpeed_def Let_def split: option.splits if_splits)

section \<open>Connecting and authenticating\<close>

lemma slice_last_id: "length xs \<le> n \<Longrightarrow> slice_last n xs = xs"
  by (simp add: slice_last_def)

lemma slice_last_length: "length (slice_last n xs) \<le> n"
  by (simp add: slice_last_def)

lemma log_op_entry:
  "debugLogs (log_op e lvl (Text s) m) = slice_last 500 (debugLogs m @ [entry e lvl s])"
  by (simp add: log_op_logs entry_def)

lemma write_characteristics_logs:
  "length (debugLogs m) \<le> 500 \<Longrightarrow>
   \<exists>keys. debugLogs (snd (write_characteristics e su cs m)) = slice_last 500 (debugLogs m @ keys)
        \<and> (\<forall>x \<in> set keys. \<exists>u. x = entry e ''INFO'' (''Wrote auth key to '' @ u))"
proof (induction cs arbitrary: m)
  case Nil
  then show ?case by (intro exI [of _ "[]"]) (simp add: slice_last_id)
next
  case (Cons c cs)
  show ?case
  proof (cases "(isWritableWithoutResponse c \<or> isWritableWithResponse c) \<and> write_error c = None")
    case False
    then consider "\<not> (isWritableWithoutResponse c \<or> isWritableWithResponse c)"
      | err where "isWritableWithoutResponse c \<or> isWritableWithResponse c" "write_error c = Some err"
      by (cases "write_error c") auto
    then show ?thesis
    proof cases
      case 1
      then show ?thesis using Cons.IH [OF Cons.prems] by simp
    next
      case 2
      then show ?thesis using Cons.prems
        by (intro exI [of _ "[]"]) (auto simp: slice_last_id)
    qed
  next
    case True
    define m1 where "m1 = log_op e ''INFO'' (Text (''Wrote auth key to '' @ char_uuid c))
                  (m\<lparr>written := written m @ [(su, char_uuid c)]\<rparr>)"
    have l1: "debugLogs m1 = slice_last 500 (debugLogs m @ [entry e ''INFO'' (''Wrote auth key to '' @ char_uuid c)])"
      by (simp add: m1_def log_op_entry)
    have "length (debugLogs m1) \<le> 500" by (simp add: l1 slice_last_length)
    from Cons.IH [OF this] obtain keys where
      k: "debugLogs (snd (write_characteristics e su cs m1)) = slice_last 500 (debugLogs m1 @ keys)"
      and p: "\<forall>x \<in> set keys. \<exists>u. x = entry e ''INFO'' (''Wrote auth key to '' @ u)"
      by blast
    have r: "write_characteristics e su (c # cs) m = write_characteristics e su cs m1"
      using True by (auto simp: m1_def)
    show ?thesis
      unfolding r k l1 slice_slice
      using p
      by (intro exI [of _ "entry e ''INFO'' (''Wrote auth key to '' @ char_uuid c) # keys"]) auto
  qed
qed

lemma write_services_logs:
  "length (debugLogs m) \<le> 500 \<Longrightarrow>
   \<exists>keys. debugLogs (snd (write_services e ss m)) = slice_last 500 (debugLogs m @ keys)
        \<and> (\<forall>x \<in> set keys. \<exists>u. x = entry e ''INFO'' (''Wrote auth key to '' @ u))"
proof (induction ss arbitrary: m)
  case Nil
  then show ?case by (intro exI [of _ "[]"]) (simp add: slice_last_id)
next
  case (Cons s ss)
  show ?case
  proof (cases "characteristics s")
    case (Inl err)
    then show ?thesis using Cons.prems
      by (intro exI [of _ "[]"]) (simp add: slice_last_id)
  next
    case (Inr cs)
    obtain r m1 where w: "write_characteristics e (service_uuid s) cs m = (r, m1)"
      by (cases "write_characteristics e (service_uuid s) cs m")
    from write_characteristics_logs [OF Cons.prems, of e "service_uuid s" cs] w obtain keys1 where
      k1: "debugLogs m1 = slice_last 500 (debugLogs m @ keys1)"
      and p1: "\<forall>x \<in> set keys1. \<exists>u. x = entry e ''INFO'' (''Wrote auth key to '' @ u)"
      by auto
    show ?thesis
    proof (cases r)
      case (Inl err)
      then show ?thesis using Inr w k1 p1 by auto
    next
      case r: (Inr u)
      have "length (debugLogs m1) \<le> 500" by (simp add: k1 slice_last_length)
      from Cons.IH [OF this] obtain keys2 where
        k2: "debugLogs (snd (write_services e ss m1)) = slice_last 500 (debugLogs m1 @ keys2)"
        and p2: "\<forall>x \<in> set keys2. \<exists>u. x = entry e ''INFO'' (''Wrote auth key to '' @ u)"
        by blast
      have eq: "write_services e (s # ss) m = write_services e ss m1"
        using Inr w r by simp
      show ?thesis
        unfolding eq k2 k1 slice_slice
        using p1 p2 by (intro exI [of _ "keys1 @ keys2"]) auto
    qed
  qed
qed

lemma genericKeyAuthentication_logs:
  assumes "length (debugLogs m) \<le> 500"
  shows "\<exists>keys. debugLogs (snd (genericKeyAuthentication dev e m)) = slice_last 500 (debugLogs m @ keys)
        \<and> (\<forall>x \<in> set keys. \<exists>u. x = entry e ''INFO'' (''Wrote auth key to '' @ u))"
proof (cases "services dev")
  case (Inl err)
  then show ?thesis using assms
    by (intro exI [of _ "[]"]) (simp add: genericKeyAuthentication_def slice_last_id)
next
  case (Inr ss)
  have "snd (genericKeyAuthentication dev e m) = snd (write_services e ss m)"
    using Inr by (simp add: genericKeyAuthentication_def split: prod.splits sum.splits)
  then show ?thesis using write_services_logs [OF assms, of e ss] by simp
qed

lemma write_characteristics_outcome:
  "fst (write_characteristics e su cs m) = fst (write_characteristics e su cs m')"
  by (induction cs arbitrary: m m') (auto split: option.splits)

lemma write_services_outcome:
  "fst (write_services e ss m) = fst (write_services e ss m')"
proof (induction ss arbitrary: m m')
  case Nil
  then show ?case by simp
next
  case (Cons s ss)
  show ?case
  proof (cases "characteristics s")
    case (Inl err)
    then show ?thesis by simp
  next
    case (Inr cs)
    obtain r m1 where w: "write_characteristics e (service_uuid s) cs m = (r, m1)"
      by (cases "write_characteristics e (service_uuid s) cs m")
    obtain r' m1' where w': "write_characteristics e (service_uuid s) cs m' = (r', m1')"
      by (cases "write_characteristics e (service_uuid s) cs m'")
    have "r = r'" using write_characteristics_outcome [of e "service_uuid s" cs m m'] w w' by simp
    then show ?thesis using Inr w w' Cons.IH [of m1 m1'] by (cases r) auto
  qed
qed

lemma genericKeyAuthentication_outcome:
  "fst (genericKeyAuthentication dev e m) = fst (genericKeyAuthentication dev e m')"
proof (cases "services dev")
  case (Inl err)
  then show ?thesis by (simp add: genericKeyAuthentication_def)
next
  case (Inr ss)
  obtain r m1 where w: "write_services e ss m = (r, m1)" by (cases "write_services e ss m")
  obtain r' m1' where w': "write_services e ss m' = (r', m1')" by (cases "write_services e ss m'")
  have "r = r'" using write_services_outcome [of e ss m m'] w w' by simp
  then show ?thesis using Inr w w' by (auto simp: genericKeyAuthentication_def split: sum.splits)
qed

lemma show_nat_123: "show_nat (Suc 0) = ''1''" "show_nat 2 = ''2''" "show_nat 3 = ''3''"
  by (simp_all add: show_nat.simps digit_char_def)

lemma attempt_first:
  assumes "genericKeyAuthentication dev e
             (log_op e ''INFO'' (Text ''Attempting authentication method 1'') m) = (Inr u, m2)"
  shows "attemptAuthentication dev e m =
           log_op e ''INFO'' (Text ''Authentication method 1 successful'') m2"
  using assms by (simp add: attemptAuthentication_def show_nat_123)

lemma attempt_second:
  assumes "genericKeyAuthentication dev e
             (log_op e ''INFO'' (Text ''Attempting authentication method 1'') m) = (Inl err1, m2)"
    and "digest_error e = None"
  shows "attemptAuthentication dev e m =
           log_op e ''INFO'' (Text ''Authentication method 2 successful'')
             (log_op e ''INFO'' (Text ''Challenge-response auth attempted'')
               (log_op e ''INFO'' (Text ''Attempting authentication method 2'')
                 (log_op e ''WARN'' (Text (''Authentication method 1 failed: '' @ err1)) m2)))"
  using assms
  by (simp add: attemptAuthentication_def show_nat_123 challengeResponseAuth_def
      numeral_2_eq_2 [symmetric])

lemma attempt_none:
  assumes "genericKeyAuthentication dev e
             (log_op e ''INFO'' (Text ''Attempting authentication method 1'') m) = (Inl err1, m2)"
    and "digest_error e = Some err2"
  shows "attemptAuthentication dev e m =
           log_op e ''WARN'' (Text ''All authentication methods failed, proceeding without authentication'')
             (log_op e ''WARN'' (Text ''Authentication method 3 failed: Manual pairing required'')
               (log_op e ''INFO'' (Text ''Bonding authentication requires manual Bluetooth pairing'')
                 (log_op e ''INFO'' (Text ''Attempting authentication method 3'')
                   (log_op e ''WARN'' (Text (''Authentication method 2 failed: Challenge-response auth failed: '' @ err2))
                     (log_op e ''INFO'' (Text ''Attempting authentication method 2'')
                       (log_op e ''WARN'' (Text (''Authentication method 1 failed: '' @ err1)) m2))))))"
proof -
  have n: "Suc (Suc 0) = 2" "Suc 2 = 3" by simp_all
  show ?thesis
    using assms
    by (simp add: attemptAuthentication_def show_nat_123 challengeResponseAuth_def
        bondingAuthentication_def n)
qed

lemma after_first_attempt:
  obtains r m2 keys where
    "genericKeyAuthentication dev e
       (log_op e ''INFO'' (Text ''Attempting authentication method 1'') m) = (r, m2)"
    and "r = fst (genericKeyAuthentication dev e m)"
    and "debugLogs m2 = slice_last 500
           (debugLogs m @ entry e ''INFO'' ''Attempting authentication method 1'' # keys)"
    and "\<forall>x \<in> set keys. \<exists>u. x = entry e ''INFO'' (''Wrote auth key to '' @ u)"
proof -
  define m1 where "m1 = log_op e ''INFO'' (Text ''Attempting authentication method 1'') m"
  obtain r m2 where g: "genericKeyAuthentication dev e m1 = (r, m2)"
    by (cases "genericKeyAuthentication dev e m1")
  have l1: "debugLogs m1 = slice_last 500 (debugLogs m @ [entry e ''INFO'' ''Attempting authentication method 1''])"
    by (simp add: m1_def log_op_entry)
  then have "length (debugLogs m1) \<le> 500" by (simp add: slice_last_length)
  from genericKeyAuthentication_logs [OF this, of dev e] g obtain keys where
    k: "debugLogs m2 = slice_last 500 (debugLogs m1 @ keys)"
    and p: "\<forall>x \<in> set keys. \<exists>u. x = entry e ''INFO'' (''Wrote auth key to '' @ u)"
    by auto
  have r: "r = fst (genericKeyAuthentication dev e m)"
    using genericKeyAuthentication_outcome [of dev e m1 m] g by simp
  have "debugLogs m2 = slice_last 500
           (debugLogs m @ entry e ''INFO'' ''Attempting authentication method 1'' # keys)"
    unfolding k l1 slice_slice by simp
  with g r p show ?thesis using that unfolding m1_def by blast
qed

lemma log_characteristics_frame:
  "monitored (log_characteristics e cs m) = monitored m
   \<and> notified (log_characteristics e cs m) = notified m
   \<and> connectionCallback (log_characteristics e cs m) = connectionCallback m"
  by (induction cs arbitrary: m) simp_all

lemma log_services_frame:
  "monitored (snd (log_services e ss m)) = monitored m
   \<and> notified (snd (log_services e ss m)) = notified m
   \<and> connectionCallback (snd (log_services e ss m)) = connectionCallback m"
proof (induction ss arbitrary: m)
  case Nil
  then show ?case by simp
next
  case (Cons s ss)
  show ?case
  proof (cases "characteristics s")
    case (Inl err)
    then show ?thesis by (simp add: Let_def)
  next
    case (Inr cs)
    then show ?thesis
      using Cons.IH [of "log_characteristics e cs
          (log_op e ''INFO'' (Text (''Found service: '' @ service_uuid s)) m)"]
        log_characteristics_frame [of e cs "log_op e ''INFO'' (Text (''Found service: '' @ service_uuid s)) m"]
      by (simp add: Let_def)
  qed
qed

lemma discoverServices_frame:
  "monitored (discoverServices dev e m) = monitored m
   \<and> notified (discoverServices dev e m) = notified m
   \<and> connectionCallback (discoverServices dev e m) = connectionCallback m"
proof -
  define m1 where "m1 = log_op e ''INFO'' (Text ''Discovering services...'') m"
  have f1: "monitored m1 = monitored m \<and> notified m1 = notified m
      \<and> connectionCallback m1 = connectionCallback m"
    by (simp add: m1_def)
  show ?thesis
  proof (cases "discover_error dev")
    case (Some err)
    then show ?thesis by (simp add: discoverServices_def Let_def)
  next
    case None
    show ?thesis
    proof (cases "services dev")
      case (Inl err)
      then show ?thesis using None by (simp add: discoverServices_def Let_def)
    next
      case (Inr ss)
      obtain r m2 where l: "log_services e ss m1 = (r, m2)" by (cases "log_services e ss m1")
      have f2: "monitored m2 = monitored m \<and> notified m2 = notified m
          \<and> connectionCallback m2 = connectionCallback m"
        using log_services_frame [of e ss m1] l f1 by simp
      show ?thesis
        using None Inr l f2 unfolding m1_def
        by (cases r; cases "storage_write_error e") (simp_all add: discoverServices_def Let_def)
    qed
  qed
qed

lemma write_characteristics_frame:
  "monitored (snd (write_characteristics e su cs m)) = monitored m
   \<and> notified (snd (write_characteristics e su cs m)) = notified m
   \<and> connectionCallback (snd (write_characteristics e su cs m)) = connectionCallback m"
  by (induction cs arbitrary: m) (simp_all split: option.splits)

lemma write_services_frame:
  "monitored (snd (write_services e ss m)) = monitored m
   \<and> notified (snd (write_services e ss m)) = notified m
   \<and> connectionCallback (snd (write_services e ss m)) = connectionCallback m"
proof (induction ss arbitrary: m)
  case Nil
  then show ?case by simp
next
  case (Cons s ss)
  show ?case
  proof (cases "characteristics s")
    case (Inl err)
    then show ?thesis by simp
  next
    case (Inr cs)
    obtain r m1 where w: "write_characteristics e (service_uuid s) cs m = (r, m1)"
      by (cases "write_characteristics e (service_uuid s) cs m")
    have f1: "monitored m1 = monitored m \<and> notified m1 = notified m
        \<and> connectionCallback m1 = connectionCallback m"
      using write_characteristics_frame [of e "service_uuid s" cs m] w by simp
    show ?thesis using Inr w f1 Cons.IH [of m1] by (cases r) simp_all
  qed
qed

lemma genericKeyAuthentication_frame:
  "monitored (snd (genericKeyAuthentication dev e m)) = monitored m
   \<and> notified (snd (genericKeyAuthentication dev e m)) = notified m
   \<and> connectionCallback (snd (genericKeyAuthentication dev e m)) = connectionCallback m"
proof (cases "services dev")
  case (Inl err)
  then show ?thesis by (simp add: genericKeyAuthentication_def)
next
  case (Inr ss)
  have "snd (genericKeyAuthentication dev e m) = snd (write_services e ss m)"
    using Inr by (simp add: genericKeyAuthentication_def split: prod.splits sum.splits)
  then show ?thesis using write_services_frame [of e ss m] by simp
qed

lemma attemptAuthentication_frame:
  "monitored (attemptAuthentication dev e m) = monitored m
   \<and> notified (attemptAuthentication dev e m) = notified m
   \<and> connectionCallback (attemptAuthentication dev e m) = connectionCallback m"
proof -
  define m1 where "m1 = log_op e ''INFO'' (Text ''Attempting authentication method 1'') m"
  obtain r m2 where g: "genericKeyAuthentication dev e m1 = (r, m2)"
    by (cases "genericKeyAuthentication dev e m1")
  have f2: "monitored m2 = monitored m \<and> notified m2 = notified m
      \<and> connectionCallback m2 = connectionCallback m"
    using genericKeyAuthentication_frame [of dev e m1] g by (simp add: m1_def)
  show ?thesis
  proof (cases r)
    case (Inr u)
    then show ?thesis using attempt_first [of dev e m u m2] g f2 by (simp add: m1_def)
  next
    case (Inl err1)
    show ?thesis
    proof (cases "digest_error e")
      case None
      then show ?thesis using attempt_second [of dev e m err1 m2] g f2 Inl by (simp add: m1_def)
    next
      case (Some err2)
      then show ?thesis using attempt_none [of dev e m err1 m2 err2] g f2 Inl by (simp add: m1_def)
    qed
  qed
qed

lemma monitor_characteristics_effect:
  "monitored (monitor_characteristics e su cs m) =
     monitored m @ map (\<lambda>c. (su, char_uuid c)) (filter isNotifiable cs)
   \<and> notified (monitor_characteristics e su cs m) = notified m
   \<and> connectionCallback (monitor_characteristics e su cs m) = connectionCallback m"
  by (induction cs arbitrary: m) simp_all

lemma monitor_services_effect:
  "monitored (snd (monitor_services e ss m)) = monitored m @ subscriptions ss
   \<and> notified (snd (monitor_services e ss m)) = notified m
   \<and> connectionCallback (snd (monitor_services e ss m)) = connectionCallback m"
proof (induction ss arbitrary: m)
  case Nil
  then show ?case by simp
next
  case (Cons s ss)
  show ?case
  proof (cases "characteristics s")
    case (Inl err)
    then show ?thesis by simp
  next
    case (Inr cs)
    then show ?thesis
      using Cons.IH [of "monitor_characteristics e (service_uuid s) cs m"]
        monitor_characteristics_effect [of e "service_uuid s" cs m]
      by simp
  qed
qed

lemma setupDataMonitoring_effect:
  "monitored (setupDataMonitoring dev e m) = monitored m @ subscriptions_of dev
   \<and> notified (setupDataMonitoring dev e m) = notified m
   \<and> connectionCallback (setupDataMonitoring dev e m) = connectionCallback m"
proof (cases "services dev")
  case (Inl err)
  then show ?thesis by (simp add: setupDataMonitoring_def subscriptions_of_def Let_def)
next
  case (Inr ss)
  define m1 where "m1 = log_op e ''INFO'' (Text ''Setting up data monitoring'') m"
  obtain r m2 where l: "monitor_services e ss m1 = (r, m2)" by (cases "monitor_services e ss m1")
  have f2: "monitored m2 = monitored m @ subscriptions ss \<and> notified m2 = notified m
      \<and> connectionCallback m2 = connectionCallback m"
    using monitor_services_effect [of e ss m1] l by (simp add: m1_def)
  show ?thesis
    using Inr l f2 unfolding m1_def
    by (cases r) (simp_all add: setupDataMonitoring_def subscriptions_of_def Let_def)
qed

lemma startDataUpdates_frame:
  "monitored (startDataUpdates e m) = monitored m
   \<and> notified (startDataUpdates e m) = notified m"
  by (simp add: startDataUpdates_def startMockDataSimulation_def setupFallbackDataUpdates_def
      startGPSFallback_def startAccelerometerFallback_def split: sum.splits option.splits)

lemma connectToDevice_effect:
  assumes "connect_error dev = None"
  shows "fst (connectToDevice dev e m) = None"
    and "monitored (snd (connectToDevice dev e m)) = monitored m @ subscriptions_of dev"
    and "notified (snd (connectToDevice dev e m)) =
            (if connectionCallback m then notified m @ [True] else notified m)"
proof -
  define m3 where "m3 = log_op e ''INFO'' (Text (''Connected to '' @ name_or_id dev))
      ((log_op e ''INFO'' (Text (''Attempting to connect to '' @ name_or_id dev)) m)\<lparr>connected := True\<rparr>)"
  define m4 where "m4 = discoverServices dev e m3"
  define m5 where "m5 = attemptAuthentication dev e m4"
  define m6 where "m6 = setupDataMonitoring dev e m5"
  define m7 where "m7 = call_connectionCallback True m6"
  have eq: "connectToDevice dev e m = (None, startDataUpdates e m7)"
    using assms by (simp add: connectToDevice_def Let_def m3_def m4_def m5_def m6_def m7_def)
  have f3: "monitored m3 = monitored m \<and> notified m3 = notified m
      \<and> connectionCallback m3 = connectionCallback m"
    by (simp add: m3_def)
  have f4: "monitored m4 = monitored m \<and> notified m4 = notified m
      \<and> connectionCallback m4 = connectionCallback m"
    using discoverServices_frame [of dev e m3] f3 by (simp add: m4_def)
  have f5: "monitored m5 = monitored m \<and> notified m5 = notified m
      \<and> connectionCallback m5 = connectionCallback m"
    using attemptAuthentication_frame [of dev e m4] f4 by (simp add: m5_def)
  have f6: "monitored m6 = monitored m @ subscriptions_of dev \<and> notified m6 = notified m
      \<and> connectionCallback m6 = connectionCallback m"
    using setupDataMonitoring_effect [of dev e m5] f5 by (simp add: m6_def)
  have f7: "monitored m7 = monitored m @ subscriptions_of dev
      \<and> notified m7 = (if connectionCallback m then notified m @ [True] else notified m)"
    using f6 by (simp add: m7_def call_connectionCallback_def)
  show "fst (connectToDevice dev e m) = None" by (simp add: eq)
  show "monitored (snd (connectToDevice dev e m)) = monitored m @ subscriptions_of dev"
    using startDataUpdates_frame [of e m7] f7 by (simp add: eq)
  show "notified (snd (connectToDevice dev e m)) =
            (if connectionCallback m then notified m @ [True] else notified m)"
    using startDataUpdates_frame [of e m7] f7 by (simp add: eq)
qed

lemma last_slice_last: "xs \<noteq> [] \<Longrightarrow> 0 < n \<Longrightarrow> last (slice_last n xs) = last xs"
  by (simp add: slice_last_def)

lemma example_device_generic_fails:
  "fst (genericKeyAuthentication example_device e m) = Inl ''Generic auth failed: Write failed''"
  by (simp add: genericKeyAuthentication_def example_device_def)

lemma example_device_subscriptions: "subscriptions_of example_device = [(''fff0'', ''fff2'')]"
  by (simp add: subscriptions_of_def example_device_def)

text \<open>
  Claim C4. \<^verbatim>\<open>attemptAuthentication\<close> tries the generic key write, then the
  challenge-response digest, then the bonding handshake, and stops at the first that does
  not throw. The entries it appends to the log are, in the three possible courses:
  attempt 1, the key writes, success 1; or attempt 1, the key writes, failure 1, attempt 2,
  the digest, success 2; or, when all three fail, one failure entry after each attempt and
  the exhaustion message last. It always returns. \<^verbatim>\<open>connectToDevice\<close>, once the radio
  connection is made, does not reject whatever the outcome of authentication: it makes
  the subscriptions of one pass of \<^verbatim>\<open>setupDataMonitoring\<close> and calls the connection
  callback once, with \<^verbatim>\<open>true\<close>.
\<close>

theorem authentication_chain:
  "(\<exists>keys. (\<forall>x \<in> set keys. \<exists>u. x = entry e ''INFO'' (''Wrote auth key to '' @ u))
      \<and> (fst (genericKeyAuthentication dev e m) = Inr () \<longrightarrow>
           debugLogs (attemptAuthentication dev e m) = slice_last 500 (debugLogs m @
             entry e ''INFO'' ''Attempting authentication method 1'' # keys @
             [entry e ''INFO'' ''Authentication method 1 successful'']))
      \<and> (\<forall>err1. fst (genericKeyAuthentication dev e m) = Inl err1 \<and> digest_error e = None \<longrightarrow>
           debugLogs (attemptAuthentication dev e m) = slice_last 500 (debugLogs m @
             entry e ''INFO'' ''Attempting authentication method 1'' # keys @
             [entry e ''WARN'' (''Authentication method 1 failed: '' @ err1),
              entry e ''INFO'' ''Attempting authentication method 2'',
              entry e ''INFO'' ''Challenge-response auth attempted'',
              entry e ''INFO'' ''Authentication method 2 successful'']))
      \<and> (\<forall>err1 err2. fst (genericKeyAuthentication dev e m) = Inl err1 \<and> digest_error e = Some err2 \<longrightarrow>
           debugLogs (attemptAuthentication dev e m) = slice_last 500 (debugLogs m @
             entry e ''INFO'' ''Attempting authentication method 1'' # keys @
             [entry e ''WARN'' (''Authentication method 1 failed: '' @ err1),
              entry e ''INFO'' ''Attempting authentication method 2'',
              entry e ''WARN'' (''Authentication method 2 failed: Challenge-response auth failed: '' @ err2),
              entry e ''INFO'' ''Attempting authentication method 3'',
              entry e ''INFO'' ''Bonding authentication requires manual Bluetooth pairing'',
              entry e ''WARN'' ''Authentication method 3 failed: Manual pairing required'',
              entry e ''WARN'' ''All authentication methods failed, proceeding without authentication''])))
   \<and> (connect_error dev = None \<longrightarrow>
        fst (connectToDevice dev e m) = None
        \<and> monitored (snd (connectToDevice dev e m)) = monitored m @ subscriptions_of dev
        \<and> notified (snd (connectToDevice dev e m)) =
            (if connectionCallback m then notified m @ [True] else notified m))"
proof -
  obtain r m2 keys where
    g: "genericKeyAuthentication dev e
       (log_op e ''INFO'' (Text ''Attempting authentication method 1'') m) = (r, m2)"
    and r: "r = fst (genericKeyAuthentication dev e m)"
    and l2: "debugLogs m2 = slice_last 500
           (debugLogs m @ entry e ''INFO'' ''Attempting authentication method 1'' # keys)"
    and p: "\<forall>x \<in> set keys. \<exists>u. x = entry e ''INFO'' (''Wrote auth key to '' @ u)"
    by (rule after_first_attempt)
  have a: "debugLogs (attemptAuthentication dev e m) = slice_last 500 (debugLogs m @
             entry e ''INFO'' ''Attempting authentication method 1'' # keys @
             [entry e ''INFO'' ''Authentication method 1 successful''])"
    if "fst (genericKeyAuthentication dev e m) = Inr ()"
  proof -
    have "genericKeyAuthentication dev e
       (log_op e ''INFO'' (Text ''Attempting authentication method 1'') m) = (Inr (), m2)"
      using g r that by simp
    then show ?thesis
      by (simp add: attempt_first log_op_entry l2 slice_slice)
  qed
  have b: "debugLogs (attemptAuthentication dev e m) = slice_last 500 (debugLogs m @
             entry e ''INFO'' ''Attempting authentication method 1'' # keys @
             [entry e ''WARN'' (''Authentication method 1 failed: '' @ err1),
              entry e ''INFO'' ''Attempting authentication method 2'',
              entry e ''INFO'' ''Challenge-response auth attempted'',
              entry e ''INFO'' ''Authentication method 2 successful''])"
    if "fst (genericKeyAuthentication dev e m) = Inl err1 \<and> digest_error e = None" for err1
  proof -
    have "genericKeyAuthentication dev e
       (log_op e ''INFO'' (Text ''Attempting authentication method 1'') m) = (Inl err1, m2)"
      using g r that by simp
    then show ?thesis using that
      by (simp add: attempt_second log_op_entry l2 slice_slice)
  qed
  have c: "debugLogs (attemptAuthentication dev e m) = slice_last 500 (debugLogs m @
             entry e ''INFO'' ''Attempting authentication method 1'' # keys @
             [entry e ''WARN'' (''Authentication method 1 failed: '' @ err1),
              entry e ''INFO'' ''Attempting authentication method 2'',
              entry e ''WARN'' (''Authentication method 2 failed: Challenge-response auth failed: '' @ err2),
              entry e ''INFO'' ''Attempting authentication method 3'',
              entry e ''INFO'' ''Bonding authentication requires manual Bluetooth pairing'',
              entry e ''WARN'' ''Authentication method 3 failed: Manual pairing required'',
              entry e ''WARN'' ''All authentication methods failed, proceeding without authentication''])"
    if "fst (genericKeyAuthentication dev e m) = Inl err1 \<and> digest_error e = Some err2" for err1 err2
  proof -
    have "genericKeyAuthentication dev e
       (log_op e ''INFO'' (Text ''Attempting authentication method 1'') m) = (Inl err1, m2)"
      using g r that by simp
    then show ?thesis using that
      by (simp add: attempt_none log_op_entry l2 slice_slice)
  qed
  have first: "\<exists>keys. (\<forall>x \<in> set keys. \<exists>u. x = entry e ''INFO'' (''Wrote auth key to '' @ u))
      \<and> (fst (genericKeyAuthentication dev e m) = Inr () \<longrightarrow>
           debugLogs (attemptAuthentication dev e m) = slice_last 500 (debugLogs m @
             entry e ''INFO'' ''Attempting authentication method 1'' # keys @
             [entry e ''INFO'' ''Authentication method 1 successful'']))
      \<and> (\<forall>err1. fst (genericKeyAuthentication dev e m) = Inl err1 \<and> digest_error e = None \<longrightarrow>
           debugLogs (attemptAuthentication dev e m) = slice_last 500 (debugLogs m @
             entry e ''INFO'' ''Attempting authentication method 1'' # keys @
             [entry e ''WARN'' (''Authentication method 1 failed: '' @ err1),
              entry e ''INFO'' ''Attempting authentication method 2'',
              entry e ''INFO'' ''Challenge-response auth attempted'',
              entry e ''INFO'' ''Authentication method 2 successful'']))
      \<and> (\<forall>err1 err2. fst (genericKeyAuthentication dev e m) = Inl err1 \<and> digest_error e = Some err2 \<longrightarrow>
           debugLogs (attemptAuthentication dev e m) = slice_last 500 (debugLogs m @
             entry e ''INFO'' ''Attempting authentication method 1'' # keys @
             [entry e ''WARN'' (''Authentication method 1 failed: '' @ err1),
              entry e ''INFO'' ''Attempting authentication method 2'',
              entry e ''WARN'' (''Authentication method 2 failed: Challenge-response auth failed: '' @ err2),
              entry e ''INFO'' ''Attempting authentication method 3'',
              entry e ''INFO'' ''Bonding authentication requires manual Bluetooth pairing'',
              entry e ''WARN'' ''Authentication method 3 failed: Manual pairing required'',
              entry e ''WARN'' ''All authentication methods failed, proceeding without authentication'']))"
    using p a b c by (intro exI [of _ keys]) blast
  show ?thesis
    using first connectToDevice_effect [of dev e m] by blast
qed

theorem authentication_chain_witness:
  "last (debugLogs (attemptAuthentication example_device no_digest_env listening_manager)) =
     entry no_digest_env ''WARN'' ''All authentication methods failed, proceeding without authentication''
   \<and> fst (connectToDevice example_device no_digest_env listening_manager) = None
   \<and> monitored (snd (connectToDevice example_device no_digest_env listening_manager)) = [(''fff0'', ''fff2'')]
   \<and> notified (snd (connectToDevice example_device no_digest_env listening_manager)) = [True]"
proof -
  have h: "digest_error no_digest_env = Some ''digest unavailable''"
    "connect_error example_device = None"
    by (simp_all add: no_digest_env_def example_device_def)
  have f: "connectionCallback listening_manager" "notified listening_manager = []"
    "monitored listening_manager = []"
    by (simp_all add: listening_manager_def example_manager_def setDataCallback_def constructor_def)
  from authentication_chain [of no_digest_env example_device listening_manager]
  obtain keys where
    l: "debugLogs (attemptAuthentication example_device no_digest_env listening_manager) =
          slice_last 500 (debugLogs listening_manager @
             entry no_digest_env ''INFO'' ''Attempting authentication method 1'' # keys @
             [entry no_digest_env ''WARN'' (''Authentication method 1 failed: '' @ ''Generic auth failed: Write failed''),
              entry no_digest_env ''INFO'' ''Attempting authentication method 2'',
              entry no_digest_env ''WARN'' (''Authentication method 2 failed: Challenge-response auth failed: '' @ ''digest unavailable''),
              entry no_digest_env ''INFO'' ''Attempting authentication method 3'',
              entry no_digest_env ''INFO'' ''Bonding authentication requires manual Bluetooth pairing'',
              entry no_digest_env ''WARN'' ''Authentication method 3 failed: Manual pairing required'',
              entry no_digest_env ''WARN'' ''All authentication methods failed, proceeding without authentication''])"
    and c: "fst (connectToDevice example_device no_digest_env listening_manager) = None"
      "monitored (snd (connectToDevice example_device no_digest_env listening_manager)) =
         monitored listening_manager @ subscriptions_of example_device"
      "notified (snd (connectToDevice example_device no_digest_env listening_manager)) =
         (if connectionCallback listening_manager then notified listening_manager @ [True]
          else notified listening_manager)"
    using h example_device_generic_fails [of no_digest_env listening_manager] by blast
  have "last (debugLogs (attemptAuthentication example_device no_digest_env listening_manager)) =
     entry no_digest_env ''WARN'' ''All authentication methods failed, proceeding without authentication''"
    unfolding l by (subst last_slice_last) simp_all
  then show ?thesis using c f example_device_subscriptions by simp
qed

text \<open>The log of the example in full: every strategy fails on the example peripheral.\<close>

lemma example_all_strategies_fail:
  "map message (debugLogs (attemptAuthentication example_device no_digest_env example_manager)) =
     [Text ''Attempting authentication method 1'',
      Text ''Authentication method 1 failed: Generic auth failed: Write failed'',
      Text ''Attempting authentication method 2'',
      Text ''Authentication method 2 failed: Challenge-response auth failed: digest unavailable'',
      Text ''Attempting authentication method 3'',
      Text ''Bonding authentication requires manual Bluetooth pairing'',
      Text ''Authentication method 3 failed: Manual pairing required'',
      Text ''All authentication methods failed, proceeding without authentication'']"
proof -
  have g: "genericKeyAuthentication example_device no_digest_env m =
      (Inl ''Generic auth failed: Write failed'', m)" for m
    by (simp add: genericKeyAuthentication_def example_device_def)
  have d: "digest_error no_digest_env = Some ''digest unavailable''"
    by (simp add: no_digest_env_def)
  show ?thesis
    by (simp add: attempt_none [OF g d] log_op_entry slice_slice example_manager_fields
        slice_last_id entry_def)
qed

end
